theory Spec2Isabelle
  imports Main "HOL-Library.Word" "HOL-Library.Sublist" "HOL-Library.Char_ord"
    "HOL-Library.List_Lexorder"
begin

section \<open>Strings: the standard-library functions the code calls\<close>

text \<open>
  A Go string is a sequence of bytes, here a \<^typ>\<open>string\<close> (one \<^typ>\<open>char\<close> per byte).
  The functions of this section are not code of the repository: they are the functions of
  Go's \<^verbatim>\<open>strings\<close>, \<^verbatim>\<open>fmt\<close> and \<^verbatim>\<open>net/url\<close> packages that the repository
  calls, written out as their documentation defines them.
\<close>

text \<open>
  The UTF-8 encodings of the code points with Unicode's White Space property, which is what
  \<^verbatim>\<open>unicode.IsSpace\<close> accepts: tab, line feed, vertical tab, form feed, carriage return,
  space, U+0085, U+00A0, U+1680, U+2000 to U+200A, U+2028, U+2029, U+202F, U+205F, U+3000.
\<close>

definition spaces :: "string list" where
  "spaces =
    [[CHR 0x09], [CHR 0x0A], [CHR 0x0B], [CHR 0x0C], [CHR 0x0D], [CHR 0x20],
     [CHR 0xC2, CHR 0x85], [CHR 0xC2, CHR 0xA0],
     [CHR 0xE1, CHR 0x9A, CHR 0x80],
     [CHR 0xE2, CHR 0x80, CHR 0x80], [CHR 0xE2, CHR 0x80, CHR 0x81],
     [CHR 0xE2, CHR 0x80, CHR 0x82], [CHR 0xE2, CHR 0x80, CHR 0x83],
     [CHR 0xE2, CHR 0x80, CHR 0x84], [CHR 0xE2, CHR 0x80, CHR 0x85],
     [CHR 0xE2, CHR 0x80, CHR 0x86], [CHR 0xE2, CHR 0x80, CHR 0x87],
     [CHR 0xE2, CHR 0x80, CHR 0x88], [CHR 0xE2, CHR 0x80, CHR 0x89],
     [CHR 0xE2, CHR 0x80, CHR 0x8A],
     [CHR 0xE2, CHR 0x80, CHR 0xA8], [CHR 0xE2, CHR 0x80, CHR 0xA9],
     [CHR 0xE2, CHR 0x80, CHR 0xAF], [CHR 0xE2, CHR 0x81, CHR 0x9F],
     [CHR 0xE3, CHR 0x80, CHR 0x80]]"

text \<open>The white-space rune a string starts with, and the one it ends with, if any.\<close>

definition leadingSpace :: "string \<Rightarrow> string option" where
  "leadingSpace s = find (\<lambda>w. prefix w s) spaces"

definition trailingSpace :: "string \<Rightarrow> string option" where
  "trailingSpace s = find (\<lambda>w. suffix w s) spaces"

function TrimLeft :: "string \<Rightarrow> string" where
  "TrimLeft s = (case leadingSpace s of None \<Rightarrow> s | Some w \<Rightarrow> TrimLeft (drop (length w) s))"
  by pat_completeness auto
termination
proof (relation "measure length")
  fix s w :: string
  assume "leadingSpace s = Some w"
  then have "w \<in> set spaces"
    by (auto simp: leadingSpace_def find_Some_iff)
  then have "0 < length w"
    by (auto simp: spaces_def)
  moreover have "length w \<le> length s"
    using \<open>leadingSpace s = Some w\<close>
    by (auto simp: leadingSpace_def find_Some_iff prefix_def)
  ultimately show "(drop (length w) s, s) \<in> measure length"
    by (cases w) auto
qed simp

declare TrimLeft.simps [simp del]

function TrimRight :: "string \<Rightarrow> string" where
  "TrimRight s =
    (case trailingSpace s of None \<Rightarrow> s | Some w \<Rightarrow> TrimRight (take (length s - length w) s))"
  by pat_completeness auto
termination
proof (relation "measure length")
  fix s w :: string
  assume "trailingSpace s = Some w"
  then have "w \<in> set spaces"
    by (auto simp: trailingSpace_def find_Some_iff)
  then have "0 < length w"
    by (auto simp: spaces_def)
  moreover have "length w \<le> length s"
    using \<open>trailingSpace s = Some w\<close>
    by (auto simp: trailingSpace_def find_Some_iff suffix_def)
  ultimately show "(take (length s - length w) s, s) \<in> measure length"
    by (cases w) auto
qed simp

declare TrimRight.simps [simp del]

text \<open>\<^verbatim>\<open>strings.TrimSpace\<close>: all leading and trailing white space removed.\<close>

definition TrimSpace :: "string \<Rightarrow> string" where
  "TrimSpace s = TrimRight (TrimLeft s)"

text \<open>
  \<^verbatim>\<open>strings.Split(s, sep)\<close> for a separator of one byte: the pieces between the
  occurrences of the separator, one more piece than there are occurrences.
\<close>

fun Split :: "string \<Rightarrow> char \<Rightarrow> string list" where
  "Split [] sep = [[]]"
| "Split (c # cs) sep =
    (if c = sep then [] # Split cs sep
     else (case Split cs sep of p # ps \<Rightarrow> (c # p) # ps | [] \<Rightarrow> [[c]]))"


text \<open>Joining pieces with a separator, as \<^verbatim>\<open>strings.Join\<close> does.\<close>

fun Join :: "string list \<Rightarrow> string \<Rightarrow> string" where
  "Join [] sep = []"
| "Join [p] sep = p"
| "Join (p # q # ps) sep = p @ sep @ Join (q # ps) sep"

text \<open>The verb \<^verbatim>\<open>%d\<close> of \<^verbatim>\<open>fmt\<close>: an integer in decimal, and \<^verbatim>\<open>%t\<close>: a boolean.\<close>

function digits :: "nat \<Rightarrow> string" where
  "digits n =
    (if n < 10 then [''0123456789'' ! n]
     else digits (n div 10) @ [''0123456789'' ! (n mod 10)])"
  by pat_completeness auto
termination
  by (relation "measure id") auto

declare digits.simps [simp del]

definition Sprintf_d :: "int \<Rightarrow> string" where
  "Sprintf_d i = (if i < 0 then CHR ''-'' # digits (nat (- i)) else digits (nat i))"

definition Sprintf_t :: "bool \<Rightarrow> string" where
  "Sprintf_t b = (if b then ''true'' else ''false'')"

subsection \<open>Query strings\<close>

text \<open>
  \<^verbatim>\<open>url.QueryEscape\<close>: letters, digits and \<^verbatim>\<open>- _ . ~\<close> are kept, a space becomes
  \<^verbatim>\<open>+\<close>, every other byte becomes \<^verbatim>\<open>%XX\<close> with upper-case hexadecimal digits.
\<close>

definition shouldEscape :: "char \<Rightarrow> bool" where
  "shouldEscape c \<longleftrightarrow>
    \<not> ((CHR ''a'' \<le> c \<and> c \<le> CHR ''z'') \<or> (CHR ''A'' \<le> c \<and> c \<le> CHR ''Z'') \<or>
       (CHR ''0'' \<le> c \<and> c \<le> CHR ''9'') \<or>
       c = CHR ''-'' \<or> c = CHR ''_'' \<or> c = CHR ''.'' \<or> c = CHR ''~'')"

definition upperhex :: "nat \<Rightarrow> char" where
  "upperhex n = ''0123456789ABCDEF'' ! n"

fun QueryEscape :: "string \<Rightarrow> string" where
  "QueryEscape [] = []"
| "QueryEscape (c # cs) =
    (if shouldEscape c then
       (if c = CHR '' '' then CHR ''+'' # QueryEscape cs
        else CHR ''%'' # upperhex (of_char c div 16) # upperhex (of_char c mod 16)
               # QueryEscape cs)
     else c # QueryEscape cs)"

text \<open>
  \<^verbatim>\<open>url.Values\<close> maps a key to the list of its values. \<^verbatim>\<open>Add\<close> appends a value to
  the list of a key, \<^verbatim>\<open>Set\<close> replaces the list by one value, and \<^verbatim>\<open>Encode\<close> writes
  \<^verbatim>\<open>key=value\<close> pairs, both escaped, joined by \<^verbatim>\<open>&\<close> and sorted by key.
\<close>

type_synonym Values = "(string \<times> string list) list"

fun Values_Add :: "Values \<Rightarrow> string \<Rightarrow> string \<Rightarrow> Values" where
  "Values_Add [] k v = [(k, [v])]"
| "Values_Add ((k', vs) # kvs) k v =
    (if k' = k then (k', vs @ [v]) # kvs else (k', vs) # Values_Add kvs k v)"

fun Values_Set :: "Values \<Rightarrow> string \<Rightarrow> string \<Rightarrow> Values" where
  "Values_Set [] k v = [(k, [v])]"
| "Values_Set ((k', vs) # kvs) k v =
    (if k' = k then (k', [v]) # kvs else (k', vs) # Values_Set kvs k v)"

definition Values_pairs :: "Values \<Rightarrow> (string \<times> string) list" where
  "Values_pairs kvs = concat (map (\<lambda>(k, vs). map (Pair k) vs) (sort_key fst kvs))"

definition Values_Encode :: "Values \<Rightarrow> string" where
  "Values_Encode kvs =
    Join (map (\<lambda>(k, v). QueryEscape k @ ''='' @ QueryEscape v) (Values_pairs kvs)) ''&''"


section \<open>The data of the package and of the program\<close>

type_synonym byte = "8 word"

text \<open>\<^verbatim>\<open>net.IP\<close> is a slice of bytes: four for IPv4, sixteen for IPv6.\<close>

type_synonym IP = "byte list"

record Error =
  Code :: int
  Message :: string

record Response =
  Success :: bool
  Errors :: "Error list"

record Zone =
  Zone_ID :: string
  Zone_Name :: string

record ListZoneResponse = Response +
  Zones :: "Zone list"

record DNSRecord =
  ID :: string
  Type :: string
  Name :: string
  Content :: string
  Proxiable :: bool
  Proxied :: bool
  TTL :: int
  Locked :: bool
  ZoneID :: string
  ZoneName :: string
  CreatedOn :: string
  ModifiedOn :: string

record ListDNSResponse = Response +
  Records :: "DNSRecord list"

record Client =
  Key :: string
  Email :: string
  Debug :: bool

text \<open>
  The command line of the update program: the values of its flags once \<^verbatim>\<open>flag.Parse\<close>
  has read them, and its \<^verbatim>\<open>Args\<close>. An address that is \<^verbatim>\<open>nil\<close> is \<open>None\<close>.
\<close>

record Flags =
  flag_email :: string
  flag_domain :: string
  flag_hostname :: string
  flag_key_file :: string
  flag_ip :: string
  flag_only_if_different :: bool
  flag_verbose :: bool

record Args =
  Args_Email :: string
  Args_Domain :: string
  Args_Hostname :: string
  Args_KeyFile :: string
  Args_IP :: "IP option"
  Args_OnlyIfDifferent :: bool
  Args_Verbose :: bool

subsection \<open>What the program sends and receives\<close>

record http_Request =
  req_Method :: string
  req_URL :: string
  req_Header :: "(string \<times> string) list"
  req_Body :: "string option"

text \<open>
  Of an HTTP response the package reads the body and closes it: \<open>resp_ReadAll\<close> is the
  outcome of \<^verbatim>\<open>ioutil.ReadAll(resp.Body)\<close> and \<open>resp_Close\<close> the error of
  \<^verbatim>\<open>resp.Body.Close()\<close>, if any. An error is its message; \<open>Inl\<close> is the error of
  a Go function that returns a value and an error.
\<close>

record http_Response =
  resp_ReadAll :: "string + string"
  resp_Close :: "string option"

datatype RR = is_A: A (the_A: IP) | AAAA IP | CNAME string | OtherRR nat

record dns_Msg =
  Rcode :: int
  Answer :: "RR list"

record dns_Query =
  q_Id :: "16 word"
  q_RecursionDesired :: bool
  q_Name :: string
  q_Qtype :: "16 word"
  q_Qclass :: "16 word"

definition TypeA :: "16 word" where "TypeA = 1"
definition ClassINET :: "16 word" where "ClassINET = 1"
definition RcodeSuccess :: int where "RcodeSuccess = 0"

text \<open>
  Everything a run does to the outside, in order: a line written by \<^verbatim>\<open>log\<close>, the usage
  text of \<^verbatim>\<open>flag.PrintDefaults\<close>, a lookup at icanhazip.com, a DNS query sent to a name
  server, an HTTP request sent to the provider.
\<close>

datatype event =
  Log string
| PrintDefaults
| IcanhazipLookup
| DNSExchange dns_Query string
| HTTPDo http_Request

text \<open>
  The functions of other packages that compute without the outside world. They are
  parameters: a theorem holds for every function in their place.
\<close>

record lib =
  ParseIP :: "string \<Rightarrow> IP option"
  IP_String :: "IP \<Rightarrow> string"
  Fqdn :: "string \<Rightarrow> string"
  RcodeToString :: "int \<Rightarrow> string"
  http_NewRequest :: "string \<Rightarrow> string \<Rightarrow> string option"
  Marshal_DNSRecord :: "DNSRecord \<Rightarrow> string + string"
  Marshal_PurgePayload :: "bool \<Rightarrow> string + string"
  Unmarshal_Response :: "string \<Rightarrow> string + Response"
  Unmarshal_ListZoneResponse :: "string \<Rightarrow> string + ListZoneResponse"
  Unmarshal_ListDNSResponse :: "string \<Rightarrow> string + ListDNSResponse"

text \<open>
  The outside world. Each answer may depend on everything the run has done so far, so each
  function takes the events up to the call: \<open>ReadFile\<close> is \<^verbatim>\<open>os.Open\<close> followed by
  \<^verbatim>\<open>ioutil.ReadAll\<close> (the error of the first, or else the error or the content of the
  second); \<open>ScanFile\<close> is \<^verbatim>\<open>os.Open\<close> followed by a \<^verbatim>\<open>bufio.Scanner\<close> (the error
  of the first, or else the lines the scanner delivers and the error it ends with, if
  any); \<open>icanhazip_Lookup\<close>, \<open>dns_Id\<close>, \<open>dns_Exchange\<close> and \<open>http_Do\<close> are the
  calls of these names.
\<close>

record world =
  ReadFile :: "event list \<Rightarrow> string \<Rightarrow> string + (string + string)"
  ScanFile :: "event list \<Rightarrow> string \<Rightarrow> string + (string list \<times> string option)"
  icanhazip_Lookup :: "event list \<Rightarrow> string + IP"
  dns_Id :: "event list \<Rightarrow> 16 word"
  dns_Exchange :: "event list \<Rightarrow> dns_Query \<Rightarrow> string \<Rightarrow> string + dns_Msg"
  http_Do :: "event list \<Rightarrow> http_Request \<Rightarrow> string + http_Response"

text \<open>\<^verbatim>\<open>net.IP.Equal\<close>: an IPv4 address equals its sixteen-byte form.\<close>

definition v4InV6Prefix :: "byte list" where
  "v4InV6Prefix = [0, 0, 0, 0, 0, 0, 0, 0, 0, 0, 0xff, 0xff]"

definition IP_Equal :: "IP \<Rightarrow> IP \<Rightarrow> bool" where
  "IP_Equal ip x =
    (if length ip = length x then ip = x
     else if length ip = 4 \<and> length x = 16 then take 12 x = v4InV6Prefix \<and> ip = drop 12 x
     else if length ip = 16 \<and> length x = 4 then take 12 ip = v4InV6Prefix \<and> drop 12 ip = x
     else False)"

text \<open>The verbs \<^verbatim>\<open>%+v\<close> and \<^verbatim>\<open>%v\<close> of \<^verbatim>\<open>fmt\<close> on the structs that are logged.\<close>

definition Sprintf_Zone :: "Zone \<Rightarrow> string" where
  "Sprintf_Zone z = ''{ID:'' @ Zone_ID z @ '' Name:'' @ Zone_Name z @ ''}''"

definition Sprintf_DNSRecord :: "DNSRecord \<Rightarrow> string" where
  "Sprintf_DNSRecord r =
    ''{ID:'' @ ID r @ '' Type:'' @ Type r @ '' Name:'' @ Name r @ '' Content:'' @ Content r @
    '' Proxiable:'' @ Sprintf_t (Proxiable r) @ '' Proxied:'' @ Sprintf_t (Proxied r) @
    '' TTL:'' @ Sprintf_d (TTL r) @ '' Locked:'' @ Sprintf_t (Locked r) @
    '' ZoneID:'' @ ZoneID r @ '' ZoneName:'' @ ZoneName r @
    '' CreatedOn:'' @ CreatedOn r @ '' ModifiedOn:'' @ ModifiedOn r @ ''}''"

definition Sprintf_Error :: "Error \<Rightarrow> string" where
  "Sprintf_Error e = ''{'' @ Sprintf_d (Code e) @ '' '' @ Message e @ ''}''"

definition Sprintf_Response :: "Response \<Rightarrow> string" where
  "Sprintf_Response r =
    ''{'' @ Sprintf_t (Success r) @ '' ['' @ Join (map Sprintf_Error (Errors r)) '' '' @ '']}''"


section \<open>The package cloudflare\<close>

definition endpoint :: string where
  "endpoint = ''https://api.cloudflare.com/client/v4/''"

definition NewClient :: "string \<Rightarrow> string \<Rightarrow> Client" where
  "NewClient key email = \<lparr>Key = key, Email = email, Debug = False\<rparr>"

text \<open>
  A function with effects takes the events so far and returns its result with the events
  extended. \<open>request\<close> sends nothing when \<^verbatim>\<open>http.NewRequest\<close> refuses the method or
  the URL.
\<close>

definition request ::
  "lib \<Rightarrow> world \<Rightarrow> Client \<Rightarrow> string \<Rightarrow> string \<Rightarrow> string option \<Rightarrow> event list
    \<Rightarrow> (string + string) \<times> event list" where
  "request L W c method url bodyReader t =
    (case http_NewRequest L method url of
       Some err \<Rightarrow> (Inl (''unable to create request: '' @ err), t)
     | None \<Rightarrow>
        (let req = \<lparr>req_Method = method, req_URL = url,
                    req_Header = [(''X-Auth-Email'', Email c), (''X-Auth-Key'', Key c),
                                  (''Content-Type'', ''application/json'')],
                    req_Body = bodyReader\<rparr>;
             t' = t @ [HTTPDo req]
         in case http_Do W t req of
              Inl err \<Rightarrow> (Inl (''request problem: '' @ err), t')
            | Inr resp \<Rightarrow>
               (case resp_ReadAll resp of
                  Inl err \<Rightarrow> (Inl (''unable to read body: '' @ err), t')
                | Inr body \<Rightarrow>
                   (case resp_Close resp of
                      Some err2 \<Rightarrow> (Inl (''problem closing body: '' @ err2), t')
                    | None \<Rightarrow> (Inr body, t')))))"

fun errorsToError_loop :: "Error list \<Rightarrow> string \<Rightarrow> string" where
  "errorsToError_loop [] msg = msg"
| "errorsToError_loop (err # errs) msg =
    errorsToError_loop errs
      ((if length msg > 0 then msg @ '', '' else msg) @
       ''Code '' @ Sprintf_d (Code err) @ '': '' @ Message err)"

definition errorsToError :: "Error list \<Rightarrow> string" where
  "errorsToError apiErrors = errorsToError_loop apiErrors []"

text \<open>\<open>ListZones\<close>: the query parameters (lines 547 to 577), the URL (line 579), the call.\<close>

definition ListZones_values ::
  "string \<Rightarrow> string \<Rightarrow> int \<Rightarrow> int \<Rightarrow> string \<Rightarrow> string \<Rightarrow> string \<Rightarrow> Values" where
  "ListZones_values name status page perPage order direction match =
    (let values = [];
         values = (if length name > 0 then Values_Add values ''name'' name else values);
         values = (if length status = 0 then Values_Add values ''status'' ''active''
                   else Values_Add values ''status'' status);
         values = (if page > 0 then Values_Add values ''page'' (Sprintf_d page) else values);
         values = (if perPage > 0 then Values_Add values ''per_page'' (Sprintf_d perPage)
                   else values);
         values = (if length order > 0 then Values_Add values ''order'' order else values);
         values = (if length direction > 0 then Values_Add values ''direction'' direction
                   else values);
         values = (if length match > 0 then Values_Add values ''match'' match else values)
     in values)"

definition ListZones_url ::
  "string \<Rightarrow> string \<Rightarrow> int \<Rightarrow> int \<Rightarrow> string \<Rightarrow> string \<Rightarrow> string \<Rightarrow> string" where
  "ListZones_url name status page perPage order direction match =
    endpoint @ ''zones?'' @
    Values_Encode (ListZones_values name status page perPage order direction match)"

definition ListZones ::
  "lib \<Rightarrow> world \<Rightarrow> Client \<Rightarrow> string \<Rightarrow> string \<Rightarrow> int \<Rightarrow> int \<Rightarrow> string \<Rightarrow> string \<Rightarrow> string
    \<Rightarrow> event list \<Rightarrow> (string + Zone list) \<times> event list" where
  "ListZones L W c name status page perPage order direction match t =
    (case request L W c ''GET''
            (ListZones_url name status page perPage order direction match) None t of
       (Inl err, t') \<Rightarrow> (Inl (''API request failure: '' @ err), t')
     | (Inr body, t') \<Rightarrow>
        (case Unmarshal_ListZoneResponse L body of
           Inl err \<Rightarrow> (Inl (''JSON decoding problem: '' @ err), t')
         | Inr zoneResponse \<Rightarrow>
            if \<not> Success zoneResponse
            then (Inl (''list zone error: '' @ errorsToError (Errors zoneResponse)), t')
            else (Inr (Zones zoneResponse), t')))"

definition ListDNSRecords_values ::
  "string \<Rightarrow> string \<Rightarrow> string \<Rightarrow> int \<Rightarrow> int \<Rightarrow> string \<Rightarrow> string \<Rightarrow> string \<Rightarrow> Values" where
  "ListDNSRecords_values recordType name content page perPage order direction match =
    (let values = [];
         values = (if length recordType > 0 then Values_Set values ''type'' recordType
                   else values);
         values = (if length name > 0 then Values_Set values ''name'' name else values);
         values = (if length content > 0 then Values_Set values ''content'' content
                   else values);
         values = (if page > 0 then Values_Set values ''page'' (Sprintf_d page) else values);
         values = (if perPage > 0 then Values_Set values ''per_page'' (Sprintf_d perPage)
                   else values);
         values = (if length order > 0 then Values_Set values ''order'' order else values);
         values = (if length direction > 0 then Values_Set values ''direction'' direction
                   else values);
         values = (if length match > 0 then Values_Set values ''match'' match else values)
     in values)"

definition ListDNSRecords ::
  "lib \<Rightarrow> world \<Rightarrow> Client \<Rightarrow> string \<Rightarrow> string \<Rightarrow> string \<Rightarrow> string \<Rightarrow> int \<Rightarrow> int
    \<Rightarrow> string \<Rightarrow> string \<Rightarrow> string \<Rightarrow> event list \<Rightarrow> (string + DNSRecord list) \<times> event list" where
  "ListDNSRecords L W c zoneID recordType name content page perPage order direction match t =
    (if length zoneID = 0
     then (Inl ''you must provide a zone ID. Use ListZones() to find one'', t)
     else
      (let url = endpoint @ ''zones/'' @ QueryEscape zoneID @ ''/dns_records?'' @
                 Values_Encode (ListDNSRecords_values recordType name content page perPage
                                  order direction match)
       in case request L W c ''GET'' url None t of
            (Inl err, t') \<Rightarrow> (Inl (''API request failure: '' @ err), t')
          | (Inr body, t') \<Rightarrow>
             (case Unmarshal_ListDNSResponse L body of
                Inl err \<Rightarrow> (Inl (''JSON decoding problem: '' @ err), t')
              | Inr dnsResponse \<Rightarrow>
                 if \<not> Success dnsResponse
                 then (Inl (''list DNS records error: '' @
                            errorsToError (Errors dnsResponse)), t')
                 else (Inr (Records dnsResponse), t'))))"

text \<open>An error result alone is \<open>Some\<close> of its message, and \<open>None\<close> is Go's \<^verbatim>\<open>nil\<close>.\<close>

definition UpdateDNSRecord_url :: "DNSRecord \<Rightarrow> string" where
  "UpdateDNSRecord_url rec =
    endpoint @ ''zones/'' @ QueryEscape (ZoneID rec) @ ''/dns_records/'' @ QueryEscape (ID rec)"

definition UpdateDNSRecord ::
  "lib \<Rightarrow> world \<Rightarrow> Client \<Rightarrow> DNSRecord \<Rightarrow> event list \<Rightarrow> string option \<times> event list" where
  "UpdateDNSRecord L W c rec t =
    (case Marshal_DNSRecord L rec of
       Inl err \<Rightarrow> (Some (''unable to encode to JSON: '' @ err), t)
     | Inr jsonPayload \<Rightarrow>
        (case request L W c ''PUT'' (UpdateDNSRecord_url rec) (Some jsonPayload) t of
           (Inl err, t') \<Rightarrow> (Some (''API request failure: '' @ err), t')
         | (Inr body, t') \<Rightarrow>
            (case Unmarshal_Response L body of
               Inl err \<Rightarrow> (Some (''JSON decoding problem: '' @ err @ '': '' @ body), t')
             | Inr response \<Rightarrow>
                if \<not> Success response
                then (Some (''update DNS record error: '' @ errorsToError (Errors response) @
                            ''. Payload: '' @ jsonPayload), t')
                else (None, t'))))"

text \<open>\<open>PurgePayload\<close> has the one field \<^verbatim>\<open>purge_everything\<close>, a boolean.\<close>

definition PurgeAllFiles ::
  "lib \<Rightarrow> world \<Rightarrow> Client \<Rightarrow> string \<Rightarrow> event list \<Rightarrow> string option \<times> event list" where
  "PurgeAllFiles L W c zoneID t =
    (if zoneID = [] then (Some ''you must provide a zone ID'', t)
     else
      (case Marshal_PurgePayload L True of
         Inl err \<Rightarrow> (Some (''unable to build JSON: '' @ err), t)
       | Inr jsonPayload \<Rightarrow>
          (let url = endpoint @ ''zones/'' @ QueryEscape zoneID @ ''/purge_cache''
           in case request L W c ''DELETE'' url (Some jsonPayload) t of
                (Inl err, t') \<Rightarrow> (Some (''API request failure: '' @ err), t')
              | (Inr body, t') \<Rightarrow>
                 (case Unmarshal_Response L body of
                    Inl err \<Rightarrow>
                      (Some (''JSON decoding problem: '' @ err @ '': '' @ body), t')
                  | Inr response \<Rightarrow>
                     (let t'' = (if Debug c then t' @ [Log (Sprintf_Response response)]
                                 else t')
                      in if \<not> Success response
                         then (Some (''purge error: '' @ errorsToError (Errors response) @
                                     ''. Payload: '' @ jsonPayload), t'')
                         else (None, t''))))))"

section \<open>The update program\<close>

definition getArgs :: "lib \<Rightarrow> Flags \<Rightarrow> string + Args" where
  "getArgs L fl =
    (if length (flag_email fl) = 0 then Inl ''You must provide an email.''
     else if length (flag_domain fl) = 0 then Inl ''You must provide a domain.''
     else if length (flag_hostname fl) = 0 then Inl ''You must provide a hostname.''
     else if length (flag_key_file fl) = 0 then Inl ''You must provide an API key file.''
     else
      (case (if length (flag_ip fl) > 0
             then (case ParseIP L (flag_ip fl) of
                     None \<Rightarrow> Inl ''Invalid IP address.''
                   | Some ip \<Rightarrow> Inr (Some ip))
             else Inr None) of
         Inl err \<Rightarrow> Inl err
       | Inr ip \<Rightarrow>
          Inr \<lparr>Args_Email = flag_email fl, Args_Domain = flag_domain fl,
               Args_Hostname = flag_hostname fl, Args_KeyFile = flag_key_file fl,
               Args_IP = ip, Args_OnlyIfDifferent = flag_only_if_different fl,
               Args_Verbose = flag_verbose fl\<rparr>))"

definition getKeyFromFile :: "world \<Rightarrow> string \<Rightarrow> event list \<Rightarrow> string + string" where
  "getKeyFromFile W keyFile t =
    (case ReadFile W t keyFile of
       Inl err \<Rightarrow> Inl err
     | Inr (Inl err) \<Rightarrow> Inl (''Problem reading from file: '' @ err)
     | Inr (Inr content) \<Rightarrow>
        (let key = TrimSpace content
         in if length key = 0 then Inl ''No key found in file.'' else Inr key))"

text \<open>
  The loop of \<open>getNameserver\<close> over the lines the scanner delivers, and what follows the
  loop once the lines are used up.
\<close>

fun getNameserver_scan :: "string list \<Rightarrow> string option \<Rightarrow> string + string" where
  "getNameserver_scan [] scanErr =
    (case scanErr of
       Some err \<Rightarrow> Inl (''Scan error: '' @ err)
     | None \<Rightarrow> Inl ''No resolver found'')"
| "getNameserver_scan (line # lines) scanErr =
    (let text = TrimSpace line
     in if length text = 0 \<or> hd text = CHR ''#'' then getNameserver_scan lines scanErr
        else
         (let pieces = Split text (CHR '' '')
          in if length pieces = 2 \<and> pieces ! 0 = ''nameserver'' then Inr (pieces ! 1)
             else getNameserver_scan lines scanErr))"

definition getNameserver :: "world \<Rightarrow> event list \<Rightarrow> string + string" where
  "getNameserver W t =
    (case ScanFile W t ''/etc/resolv.conf'' of
       Inl err \<Rightarrow> Inl err
     | Inr (lines, scanErr) \<Rightarrow> getNameserver_scan lines scanErr)"

text \<open>The loop of \<open>dnsLookupHost\<close> over the answer section.\<close>

fun dnsLookupHost_answers :: "RR list \<Rightarrow> IP list \<Rightarrow> IP list" where
  "dnsLookupHost_answers [] ips = ips"
| "dnsLookupHost_answers (rr # rrs) ips =
    (case rr of
       A ip \<Rightarrow> dnsLookupHost_answers rrs (ips @ [ip])
     | _ \<Rightarrow> dnsLookupHost_answers rrs ips)"

definition dnsLookupHost ::
  "lib \<Rightarrow> world \<Rightarrow> string \<Rightarrow> event list \<Rightarrow> (string + IP list) \<times> event list" where
  "dnsLookupHost L W host t =
    (case getNameserver W t of
       Inl err \<Rightarrow> (Inl (''Unable to determine a nameserver: '' @ err), t)
     | Inr nameserver \<Rightarrow>
        (let msg = \<lparr>q_Id = dns_Id W t, q_RecursionDesired = True, q_Name = Fqdn L host,
                    q_Qtype = TypeA, q_Qclass = ClassINET\<rparr>;
             addr = nameserver @ '':53'';
             t' = t @ [DNSExchange msg addr]
         in case dns_Exchange W t msg addr of
              Inl err \<Rightarrow> (Inl (''Unable to perform lookup: '' @ err), t')
            | Inr resp \<Rightarrow>
               if Rcode resp \<noteq> RcodeSuccess
               then (Inl (''Lookup problem: '' @ RcodeToString L (Rcode resp)), t')
               else (Inr (dnsLookupHost_answers (Answer resp) []), t')))"

text \<open>
  \<open>updateIP\<close>: the inner loop over the records of one zone (lines 269 to 276), the outer
  loop over the zones (lines 258 to 277), what is done with the one matching record (lines
  287 to 306), and the function.
\<close>

fun updateIP_records ::
  "bool \<Rightarrow> string \<Rightarrow> string \<Rightarrow> DNSRecord list \<Rightarrow> DNSRecord list \<Rightarrow> event list
    \<Rightarrow> DNSRecord list \<times> event list" where
  "updateIP_records verbose hostname recordType [] matchingRecords t = (matchingRecords, t)"
| "updateIP_records verbose hostname recordType (rec # recs) matchingRecords t =
    (let t' = (if verbose then t @ [Log (''Record: '' @ Sprintf_DNSRecord rec)] else t);
         matchingRecords' =
           (if Name rec = hostname \<and> Type rec = recordType then matchingRecords @ [rec]
            else matchingRecords)
     in updateIP_records verbose hostname recordType recs matchingRecords' t')"

fun updateIP_zones ::
  "lib \<Rightarrow> world \<Rightarrow> Client \<Rightarrow> bool \<Rightarrow> string \<Rightarrow> string \<Rightarrow> Zone list \<Rightarrow> DNSRecord list
    \<Rightarrow> event list \<Rightarrow> (string + DNSRecord list) \<times> event list" where
  "updateIP_zones L W client verbose hostname recordType [] matchingRecords t =
    (Inr matchingRecords, t)"
| "updateIP_zones L W client verbose hostname recordType (zone # zones) matchingRecords t =
    (let t1 = (if verbose then t @ [Log (''Zone: '' @ Sprintf_Zone zone)] else t)
     in case ListDNSRecords L W client (Zone_ID zone) recordType hostname
               [] (- 1) (- 1) [] [] [] t1 of
          (Inl err, t2) \<Rightarrow> (Inl (''Unable to list DNS records: '' @ err), t2)
        | (Inr records, t2) \<Rightarrow>
           (case updateIP_records verbose hostname recordType records matchingRecords t2 of
              (matchingRecords', t3) \<Rightarrow>
                updateIP_zones L W client verbose hostname recordType zones
                  matchingRecords' t3))"

definition updateIP_record ::
  "lib \<Rightarrow> world \<Rightarrow> Client \<Rightarrow> string \<Rightarrow> bool \<Rightarrow> IP \<Rightarrow> DNSRecord \<Rightarrow> event list
    \<Rightarrow> string option \<times> event list" where
  "updateIP_record L W client hostname verbose ip rec t =
    (if Content rec = IP_String L ip
     then (None, t @ [Log (''Record already has IP ['' @ IP_String L ip @
                           '']. No update performed.'')])
     else
      (let rec = rec\<lparr>Content := IP_String L ip\<rparr>;
           t' = (if verbose then t @ [Log (''Updating record to: '' @ Sprintf_DNSRecord rec)]
                 else t)
       in case UpdateDNSRecord L W client rec t' of
            (Some err, t'') \<Rightarrow> (Some (''Unable to update DNS record: '' @ err), t'')
          | (None, t'') \<Rightarrow>
              (None, t'' @ [Log (''Updated A record of ['' @ hostname @ ''] to IP ['' @
                                 IP_String L ip @ '']'')])))"

definition updateIP ::
  "lib \<Rightarrow> world \<Rightarrow> string \<Rightarrow> string \<Rightarrow> string \<Rightarrow> string \<Rightarrow> bool \<Rightarrow> IP \<Rightarrow> event list
    \<Rightarrow> string option \<times> event list" where
  "updateIP L W key email domain hostname verbose ip t =
    (let client = NewClient key email
     in case ListZones L W client domain [] (- 1) (- 1) [] [] [] t of
          (Inl err, t1) \<Rightarrow> (Some (''Unable to list zones: '' @ err), t1)
        | (Inr zones, t1) \<Rightarrow>
           (let recordType = ''A''
            in case updateIP_zones L W client verbose hostname recordType zones [] t1 of
                 (Inl err, t2) \<Rightarrow> (Some err, t2)
               | (Inr matchingRecords, t2) \<Rightarrow>
                  if length matchingRecords = 0
                  then (Some ''Record not found. No update performed.'', t2)
                  else if length matchingRecords > 1
                  then (Some ''Multiple matching records found. Unable to perform update.'',
                        t2)
                  else updateIP_record L W client hostname verbose ip
                         (matchingRecords ! 0) t2))"

text \<open>
  \<open>main\<close> returns the exit status of the process. \<^verbatim>\<open>log.Fatal\<close> and
  \<^verbatim>\<open>log.Fatalf\<close> write their line and exit with status 1. \<open>main_update\<close> is
  \<open>main\<close> from line 57 on, once the arguments, the key and the address to set are known.
\<close>

definition Fatal :: "string \<Rightarrow> event list \<Rightarrow> int \<times> event list" where
  "Fatal msg t = (1, t @ [Log msg])"

definition main_update ::
  "lib \<Rightarrow> world \<Rightarrow> Args \<Rightarrow> string \<Rightarrow> IP \<Rightarrow> event list \<Rightarrow> int \<times> event list" where
  "main_update L W args key ip t =
    (if \<not> Args_OnlyIfDifferent args
     then (case updateIP L W key (Args_Email args) (Args_Domain args) (Args_Hostname args)
                  (Args_Verbose args) ip t of
             (Some err, t') \<Rightarrow> Fatal err t'
           | (None, t') \<Rightarrow> (0, t'))
     else
      (case dnsLookupHost L W (Args_Hostname args) t of
         (Inl err, t1) \<Rightarrow> Fatal err t1
       | (Inr ips, t1) \<Rightarrow>
          if length ips = 0
          then Fatal ''Unable to determine current record IP via DNS. No IPs found.'' t1
          else if length ips > 1
          then Fatal (''There are '' @ Sprintf_d (int (length ips)) @
                      '' A records. Unable to update.'') t1
          else
           (let currentIP = ips ! 0;
                t2 = (if Args_Verbose args
                      then t1 @ [Log (''Host'' @ [CHR 0x27] @ ''s current IP is '' @
                                      IP_String L currentIP)]
                      else t1)
            in if IP_Equal currentIP ip
               then (0, if Args_Verbose args
                        then t2 @ [Log (''DNS record'' @ [CHR 0x27] @
                                        ''s IP matches IP provided/found ('' @ IP_String L ip @
                                        ''). Not making an update.'')]
                        else t2)
               else
                (case updateIP L W key (Args_Email args) (Args_Domain args)
                        (Args_Hostname args) (Args_Verbose args) ip t2 of
                   (Some err, t3) \<Rightarrow> Fatal err t3
                 | (None, t3) \<Rightarrow> (0, t3)))))"

definition main :: "lib \<Rightarrow> world \<Rightarrow> Flags \<Rightarrow> event list \<Rightarrow> int \<times> event list" where
  "main L W fl t =
    (case getArgs L fl of
       Inl err \<Rightarrow> (1, t @ [PrintDefaults])
     | Inr args \<Rightarrow>
        (case getKeyFromFile W (Args_KeyFile args) t of
           Inl err \<Rightarrow> Fatal (''Unable to read key: '' @ err) t
         | Inr key \<Rightarrow>
            (case Args_IP args of
               Some ip \<Rightarrow> main_update L W args key ip t
             | None \<Rightarrow>
                (case icanhazip_Lookup W t of
                   Inl err \<Rightarrow>
                     Fatal (''Unable to look up IP from icanhazip.com: '' @ err)
                       (t @ [IcanhazipLookup])
                 | Inr myIP \<Rightarrow>
                     main_update L W args key myIP
                       (if Args_Verbose args
                        then t @ [IcanhazipLookup,
                                  Log (''Found current IP is '' @ IP_String L myIP)]
                        else t @ [IcanhazipLookup])))))"

section \<open>Notions the properties are stated with\<close>

text \<open>
  A request that changes something at the provider: every request of the package other than
  its two \<^verbatim>\<open>GET\<close> listings. A request to the provider: any HTTP request of the package.
\<close>

fun mutating :: "event \<Rightarrow> bool" where
  "mutating (HTTPDo req) = (req_Method req \<noteq> ''GET'')"
| "mutating _ = False"

fun provider_call :: "event \<Rightarrow> bool" where
  "provider_call (HTTPDo req) = True"
| "provider_call _ = False"

fun network :: "event \<Rightarrow> bool" where
  "network (Log msg) = False"
| "network PrintDefaults = False"
| "network _ = True"

text \<open>
  The records the listing step of \<open>updateIP\<close> receives: the answers to the calls of
  \<open>ListDNSRecords\<close> that the loop over the zones makes, one list per zone, in the order of
  the calls. It is that loop without its filter.
\<close>

fun listed ::
  "lib \<Rightarrow> world \<Rightarrow> Client \<Rightarrow> bool \<Rightarrow> string \<Rightarrow> string \<Rightarrow> Zone list \<Rightarrow> event list
    \<Rightarrow> string + DNSRecord list list" where
  "listed L W client verbose hostname recordType [] t = Inr []"
| "listed L W client verbose hostname recordType (zone # zones) t =
    (let t1 = (if verbose then t @ [Log (''Zone: '' @ Sprintf_Zone zone)] else t)
     in case ListDNSRecords L W client (Zone_ID zone) recordType hostname
               [] (- 1) (- 1) [] [] [] t1 of
          (Inl err, t2) \<Rightarrow> Inl err
        | (Inr records, t2) \<Rightarrow>
           (case listed L W client verbose hostname recordType zones
                   (if verbose
                    then t2 @ map (\<lambda>rec. Log (''Record: '' @ Sprintf_DNSRecord rec)) records
                    else t2) of
              Inl err \<Rightarrow> Inl err
            | Inr rest \<Rightarrow> Inr (records # rest)))"


text \<open>
  What the steps of \<open>updateIP\<close> may add to the events: its listing steps only write log
  lines and send \<^verbatim>\<open>GET\<close> requests, and the whole of it only writes log lines and sends
  requests to the provider.
\<close>

fun listing_event :: "event \<Rightarrow> bool" where
  "listing_event (Log msg) = True"
| "listing_event (HTTPDo req) = (req_Method req = ''GET'')"
| "listing_event _ = False"

fun update_event :: "event \<Rightarrow> bool" where
  "update_event (Log msg) = True"
| "update_event (HTTPDo req) = True"
| "update_event _ = False"

subsection \<open>An example run\<close>

text \<open>
  The example of the specification: the domain \<^verbatim>\<open>example.com\<close> with the one zone
  \<^verbatim>\<open>z1\<close>, the host \<^verbatim>\<open>host.example.com\<close> whose record holds 203.0.113.9, and the
  address 203.0.113.5 to set. The library functions are stand-ins that answer for these
  values; the provider lists the records \<open>recs\<close>, and lists them with the new content
  and a new time of modification once a request that changes something has been sent. The name server answers with the
  records \<open>answer\<close>.
\<close>

definition ex_v4 :: IP where
  "ex_v4 = [0, 0, 0, 0, 0, 0, 0, 0, 0, 0, 0xff, 0xff, 203, 0, 113, 5]"

definition ex_v6 :: IP where
  "ex_v6 = [0x20, 0x01, 0x0d, 0xb8, 0, 0, 0, 0, 0, 0, 0, 0, 0, 0, 0, 1]"

definition ex_current :: IP where
  "ex_current = [203, 0, 113, 9]"

definition ex_zone :: Zone where
  "ex_zone = \<lparr>Zone_ID = ''z1'', Zone_Name = ''example.com''\<rparr>"

definition ex_record :: DNSRecord where
  "ex_record =
    \<lparr>ID = ''r1'', Type = ''A'', Name = ''host.example.com'', Content = ''203.0.113.9'',
     Proxiable = True, Proxied = False, TTL = 120, Locked = False, ZoneID = ''z1'',
     ZoneName = ''example.com'', CreatedOn = ''2016-09-15T20:12:06Z'',
     ModifiedOn = ''2016-09-16T08:00:00Z''\<rparr>"

definition ex_updated :: "DNSRecord \<Rightarrow> DNSRecord" where
  "ex_updated rec = rec\<lparr>Content := ''203.0.113.5'', ModifiedOn := ''2016-11-03T00:00:00Z''\<rparr>"

definition ex_lib :: "DNSRecord list \<Rightarrow> lib" where
  "ex_lib recs =
    \<lparr>ParseIP = (\<lambda>s. if s = ''203.0.113.5'' then Some ex_v4
                     else if s = ''2001:db8::1'' then Some ex_v6 else None),
     IP_String = (\<lambda>ip. if ip = ex_v4 then ''203.0.113.5''
                        else if ip = ex_v6 then ''2001:db8::1'' else ''203.0.113.9''),
     Fqdn = (\<lambda>s. s @ ''.''),
     RcodeToString = (\<lambda>rcode. if rcode = 3 then ''NXDOMAIN'' else ''SERVFAIL''),
     http_NewRequest = (\<lambda>method url. None),
     Marshal_DNSRecord = (\<lambda>rec. Inr (Sprintf_DNSRecord rec)),
     Marshal_PurgePayload = (\<lambda>everything. Inr (''purge_everything:'' @ Sprintf_t everything)),
     Unmarshal_Response = (\<lambda>body. Inr \<lparr>Success = True, Errors = []\<rparr>),
     Unmarshal_ListZoneResponse =
       (\<lambda>body. Inr \<lparr>Success = True, Errors = [], Zones = [ex_zone]\<rparr>),
     Unmarshal_ListDNSResponse =
       (\<lambda>body. Inr \<lparr>Success = True, Errors = [],
                     Records = (if body = ''updated''
                                then map ex_updated recs
                                else recs)\<rparr>)\<rparr>"

definition ex_world :: "RR list \<Rightarrow> world" where
  "ex_world answer =
    \<lparr>ReadFile = (\<lambda>t path. Inr (Inr '' secret '')),
     ScanFile = (\<lambda>t path. Inr ([''# resolver'', ''nameserver 192.0.2.53''], None)),
     icanhazip_Lookup = (\<lambda>t. Inr ex_v4),
     dns_Id = (\<lambda>t. 7),
     dns_Exchange = (\<lambda>t q addr. Inr \<lparr>Rcode = 0, Answer = answer\<rparr>),
     http_Do = (\<lambda>t req. Inr \<lparr>resp_ReadAll = Inr (if list_ex mutating t then ''updated''
                                                  else ''listed''),
                              resp_Close = None\<rparr>)\<rparr>"

definition ex_flags :: "string \<Rightarrow> bool \<Rightarrow> Flags" where
  "ex_flags ip different =
    \<lparr>flag_email = ''me@example.com'', flag_domain = ''example.com'',
     flag_hostname = ''host.example.com'', flag_key_file = ''/etc/cf.key'', flag_ip = ip,
     flag_only_if_different = different, flag_verbose = False\<rparr>"


definition ex_args :: "bool \<Rightarrow> Args" where
  "ex_args different =
    \<lparr>Args_Email = ''me@example.com'', Args_Domain = ''example.com'',
     Args_Hostname = ''host.example.com'', Args_KeyFile = ''/etc/cf.key'',
     Args_IP = Some ex_v4, Args_OnlyIfDifferent = different, Args_Verbose = False\<rparr>"

text \<open>
  A provider that refuses every update: it answers each \<^verbatim>\<open>PUT\<close> with an error and goes
  on listing the record as it was.
\<close>

definition ex_refusing_lib :: lib where
  "ex_refusing_lib =
    (ex_lib [ex_record])
      \<lparr>Unmarshal_Response :=
         (\<lambda>body. Inr \<lparr>Success = False,
                       Errors = [\<lparr>Code = 1004, Message = ''DNS Validation Error''\<rparr>]\<rparr>)\<rparr>"

definition ex_refusing_world :: world where
  "ex_refusing_world =
    (ex_world [])\<lparr>http_Do := (\<lambda>t req. Inr \<lparr>resp_ReadAll = Inr ''listed'', resp_Close = None\<rparr>)\<rparr>"

section \<open>Auxiliary facts\<close>

subsection \<open>The loops, and the events each function adds\<close>

lemma dnsLookupHost_answers_eq:
  "dnsLookupHost_answers rrs ips = ips @ map the_A (filter is_A rrs)"
  by (induction rrs arbitrary: ips) (auto split: RR.splits)

lemma request_events:
  "snd (request L W c method url body t) =
    (case http_NewRequest L method url of
       Some err \<Rightarrow> t
     | None \<Rightarrow> t @ [HTTPDo \<lparr>req_Method = method, req_URL = url,
                    req_Header = [(''X-Auth-Email'', Email c), (''X-Auth-Key'', Key c),
                                  (''Content-Type'', ''application/json'')],
                    req_Body = body\<rparr>])"
  by (simp add: request_def Let_def split: option.splits sum.splits)

lemma ListZones_events:
  "snd (ListZones L W c name status page perPage order direction match t) =
   snd (request L W c ''GET'' (ListZones_url name status page perPage order direction match) None t)"
  by (simp add: ListZones_def split: prod.splits sum.splits)

lemma ListDNSRecords_events:
  "snd (ListDNSRecords L W c zoneID recordType name content page perPage order direction match t) =
   (if length zoneID = 0 then t else
   snd (request L W c ''GET'' (endpoint @ ''zones/'' @ QueryEscape zoneID @ ''/dns_records?'' @
                 Values_Encode (ListDNSRecords_values recordType name content page perPage
                                  order direction match)) None t))"
  by (simp add: ListDNSRecords_def Let_def split: prod.splits sum.splits)

lemma updateIP_records_eq:
  "updateIP_records verbose hostname recordType recs ms t =
    (ms @ filter (\<lambda>rec. Name rec = hostname \<and> Type rec = recordType) recs,
     if verbose then t @ map (\<lambda>rec. Log (''Record: '' @ Sprintf_DNSRecord rec)) recs else t)"
  by (induction recs arbitrary: ms t) (auto simp: Let_def)

lemma updateIP_zones_listed:
  "fst (updateIP_zones L W c verbose hostname recordType zones ms t) =
    (case listed L W c verbose hostname recordType zones t of
       Inl err \<Rightarrow> Inl (''Unable to list DNS records: '' @ err)
     | Inr rss \<Rightarrow> Inr (ms @ filter (\<lambda>rec. Name rec = hostname \<and> Type rec = recordType) (concat rss)))"
proof (induction zones arbitrary: ms t)
  case Nil
  then show ?case by simp
next
  case (Cons zone zones)
  let ?t1 = "if verbose then t @ [Log (''Zone: '' @ Sprintf_Zone zone)] else t"
  obtain r t2 where l: "ListDNSRecords L W c (Zone_ID zone) recordType hostname [] (- 1) (- 1) [] [] [] ?t1 = (r, t2)"
    by force
  show ?case
  proof (cases r)
    case (Inl err)
    then show ?thesis using l by (simp add: Let_def)
  next
    case (Inr records)
    then show ?thesis using l Cons.IH by (simp add: Let_def updateIP_records_eq split: sum.splits)
  qed
qed

lemma request_GET_appends:
  "\<exists>es. snd (request L W c ''GET'' url body t) = t @ es \<and> list_all listing_event es"
  by (simp add: request_events split: option.splits)

lemma ListZones_appends:
  "\<exists>es. snd (ListZones L W c name status page perPage order direction match t) = t @ es \<and>
        list_all listing_event es"
  by (simp add: ListZones_events request_GET_appends)

lemma ListDNSRecords_appends:
  "\<exists>es. snd (ListDNSRecords L W c zoneID recordType name content page perPage order direction
               match t) = t @ es \<and> list_all listing_event es"
  by (simp add: ListDNSRecords_events request_GET_appends)

lemma updateIP_zones_appends:
  "\<exists>es. snd (updateIP_zones L W c verbose hostname recordType zones ms t) = t @ es \<and>
        list_all listing_event es"
proof (induction zones arbitrary: ms t)
  case Nil
  then show ?case by simp
next
  case (Cons zone zones)
  let ?t1 = "if verbose then t @ [Log (''Zone: '' @ Sprintf_Zone zone)] else t"
  obtain r t2 where l: "ListDNSRecords L W c (Zone_ID zone) recordType hostname [] (- 1) (- 1) [] [] [] ?t1 = (r, t2)"
    by force
  obtain es1 where e1: "t2 = ?t1 @ es1" "list_all listing_event es1"
    using ListDNSRecords_appends [of L W c "Zone_ID zone" recordType hostname "[]" "- 1" "- 1" "[]" "[]" "[]" ?t1] l
    by auto
  then obtain es2 where e2: "t2 = t @ es2" "list_all listing_event es2"
    by (cases verbose) auto
  show ?case
  proof (cases r)
    case (Inl err)
    then show ?thesis using l e2 by (simp add: Let_def)
  next
    case (Inr records)
    let ?ms = "ms @ filter (\<lambda>rec. Name rec = hostname \<and> Type rec = recordType) records"
    let ?t3 = "if verbose then t2 @ map (\<lambda>rec. Log (''Record: '' @ Sprintf_DNSRecord rec)) records else t2"
    let ?logs = "if verbose then map (\<lambda>rec. Log (''Record: '' @ Sprintf_DNSRecord rec)) records else []"
    have "list_all listing_event ?logs"
      by (auto simp: list_all_iff)
    then have "?t3 = t @ (es2 @ ?logs) \<and> list_all listing_event (es2 @ ?logs)"
      using e2 by simp
    then obtain es3 where e3: "?t3 = t @ es3" "list_all listing_event es3"
      by blast
    obtain es4 where e4: "snd (updateIP_zones L W c verbose hostname recordType zones ?ms ?t3) = ?t3 @ es4"
      "list_all listing_event es4"
      using Cons.IH [of ?ms ?t3] by blast
    have "snd (updateIP_zones L W c verbose hostname recordType (zone # zones) ms t) =
          snd (updateIP_zones L W c verbose hostname recordType zones ?ms ?t3)"
      using l Inr by (simp add: Let_def updateIP_records_eq)
    then have "snd (updateIP_zones L W c verbose hostname recordType (zone # zones) ms t) = t @ (es3 @ es4)"
      using e3 e4 by simp
    moreover have "list_all listing_event (es3 @ es4)"
      using e3 e4 by simp
    ultimately show ?thesis by blast
  qed
qed

lemma listing_not_mutating: "list_all listing_event es \<Longrightarrow> filter mutating es = []"
proof (induction es)
  case Nil
  then show ?case by simp
next
  case (Cons e es)
  then show ?case by (cases e) auto
qed

lemma updateIP_listing_mutating:
  assumes "ListZones L W c domain [] (- 1) (- 1) [] [] [] t = (Inr zones, t1)"
    and "updateIP_zones L W c verbose hostname recordType zones [] t1 = (r, t2)"
  shows "filter mutating t2 = filter mutating t"
proof -
  obtain es1 where "t1 = t @ es1" "list_all listing_event es1"
    using ListZones_appends [of L W c domain "[]" "- 1" "- 1" "[]" "[]" "[]" t] assms(1) by auto
  moreover obtain es2 where "t2 = t1 @ es2" "list_all listing_event es2"
    using updateIP_zones_appends [of L W c verbose hostname recordType zones "[]" t1] assms(2) by auto
  ultimately show ?thesis
    by (simp add: listing_not_mutating)
qed

lemma listing_update_event: "list_all listing_event es \<Longrightarrow> list_all update_event es"
proof (induction es)
  case Nil
  then show ?case by simp
next
  case (Cons e es)
  then show ?case by (cases e) auto
qed

lemma UpdateDNSRecord_events:
  "snd (UpdateDNSRecord L W c rec t) =
    (case Marshal_DNSRecord L rec of
       Inl err \<Rightarrow> t
     | Inr payload \<Rightarrow> snd (request L W c ''PUT'' (UpdateDNSRecord_url rec) (Some payload) t))"
  by (simp add: UpdateDNSRecord_def split: sum.splits prod.splits)

lemma UpdateDNSRecord_appends:
  "\<exists>es. snd (UpdateDNSRecord L W c rec t) = t @ es \<and> list_all update_event es"
  by (simp add: UpdateDNSRecord_events request_events split: sum.splits option.splits)

lemma updateIP_record_appends:
  "\<exists>es. snd (updateIP_record L W c hostname verbose ip rec t) = t @ es \<and> list_all update_event es"
proof (cases "Content rec = IP_String L ip")
  case True
  then show ?thesis by (simp add: updateIP_record_def)
next
  case False
  let ?rec = "rec\<lparr>Content := IP_String L ip\<rparr>"
  let ?t' = "if verbose then t @ [Log (''Updating record to: '' @ Sprintf_DNSRecord ?rec)] else t"
  obtain r t'' where u: "UpdateDNSRecord L W c ?rec ?t' = (r, t'')"
    by force
  obtain es where es: "t'' = ?t' @ es" "list_all update_event es"
    using UpdateDNSRecord_appends [of L W c ?rec ?t'] u by auto
  have "\<exists>es'. t'' = t @ es' \<and> list_all update_event es'"
  proof (cases verbose)
    case True
    then have "t'' = t @ (Log (''Updating record to: '' @ Sprintf_DNSRecord ?rec) # es)"
      using es by simp
    moreover have "list_all update_event (Log (''Updating record to: '' @ Sprintf_DNSRecord ?rec) # es)"
      using es by simp
    ultimately show ?thesis by blast
  next
    case False
    then show ?thesis using es by auto
  qed
  then obtain es' where es': "t'' = t @ es'" "list_all update_event es'"
    by blast
  show ?thesis
  proof (cases r)
    case None
    have "snd (updateIP_record L W c hostname verbose ip rec t) =
          t @ (es' @ [Log (''Updated A record of ['' @ hostname @ ''] to IP ['' @ IP_String L ip @ '']'')])"
      using False u None es' by (simp add: updateIP_record_def Let_def)
    moreover have "list_all update_event (es' @ [Log (''Updated A record of ['' @ hostname @ ''] to IP ['' @ IP_String L ip @ '']'')])"
      using es' by simp
    ultimately show ?thesis by blast
  next
    case (Some err)
    then have "snd (updateIP_record L W c hostname verbose ip rec t) = t @ es'"
      using False u es' by (simp add: updateIP_record_def Let_def)
    then show ?thesis using es' by blast
  qed
qed

lemma updateIP_appends:
  "\<exists>es. snd (updateIP L W key email domain hostname verbose ip t) = t @ es \<and>
        list_all update_event es"
proof -
  let ?c = "NewClient key email"
  obtain rz t1 where z: "ListZones L W ?c domain [] (- 1) (- 1) [] [] [] t = (rz, t1)"
    by force
  obtain es1 where es1: "t1 = t @ es1" "list_all update_event es1"
    using ListZones_appends [of L W ?c domain "[]" "- 1" "- 1" "[]" "[]" "[]" t] z
    by (auto dest: listing_update_event)
  show ?thesis
  proof (cases rz)
    case (Inl err)
    then show ?thesis using z es1 by (auto simp: updateIP_def)
  next
    case (Inr zones)
    obtain rm t2 where m: "updateIP_zones L W ?c verbose hostname ''A'' zones [] t1 = (rm, t2)"
      by force
    obtain es2 where es2: "t2 = t1 @ es2" "list_all update_event es2"
      using updateIP_zones_appends [of L W ?c verbose hostname "''A''" zones "[]" t1] m
      by (auto dest: listing_update_event)
    have t2: "t2 = t @ (es1 @ es2)" "list_all update_event (es1 @ es2)"
      using es1 es2 by simp_all
    show ?thesis
    proof (cases rm)
      case (Inl err)
      then have "snd (updateIP L W key email domain hostname verbose ip t) = t2"
        using z Inr m by (simp add: updateIP_def)
      then show ?thesis using t2 by blast
    next
      case ms: (Inr matchingRecords)
      obtain es3 where es3:
        "snd (updateIP_record L W ?c hostname verbose ip (matchingRecords ! 0) t2) = t2 @ es3"
        "list_all update_event es3"
        using updateIP_record_appends by blast
      have "snd (updateIP L W key email domain hostname verbose ip t) = t2 \<or>
            snd (updateIP L W key email domain hostname verbose ip t) = t2 @ es3"
        using z Inr m ms es3 by (simp add: updateIP_def Let_def)
      moreover have "t2 @ es3 = t @ (es1 @ es2 @ es3)" "list_all update_event (es1 @ es2 @ es3)"
        using t2 es3 by simp_all
      ultimately show ?thesis using t2 by metis
    qed
  qed
qed

lemma dnsLookupHost_appends:
  "\<exists>es. snd (dnsLookupHost L W host t) = t @ es \<and> list_all (\<lambda>e. \<exists>q a. e = DNSExchange q a) es"
  by (auto simp: dnsLookupHost_def Let_def split: sum.splits)

lemma dnsLookupHost_provider:
  "filter provider_call (snd (dnsLookupHost L W host t)) = filter provider_call t"
  by (auto simp: dnsLookupHost_def Let_def split: sum.splits)

lemma ex_scan: "getNameserver_scan [''# resolver'', ''nameserver 192.0.2.53''] None = Inr ''192.0.2.53''"
  by code_simp

lemma ex_getNameserver: "getNameserver (ex_world answer) t = Inr ''192.0.2.53''"
  unfolding getNameserver_def ex_world_def using ex_scan by simp

lemma ex_key: "TrimSpace '' secret '' = ''secret''"
  by code_simp

lemma ex_getKeyFromFile: "getKeyFromFile (ex_world answer) path t = Inr ''secret''"
  unfolding getKeyFromFile_def ex_world_def using ex_key by simp

lemma ex_ListZones:
  "ListZones (ex_lib recs) (ex_world answer) c domain [] (- 1) (- 1) [] [] [] t =
    (Inr [ex_zone], t @ [HTTPDo \<lparr>req_Method = ''GET'', req_URL = ListZones_url domain [] (- 1) (- 1) [] [] [],
        req_Header = [(''X-Auth-Email'', Email c), (''X-Auth-Key'', Key c),
                                  (''Content-Type'', ''application/json'')], req_Body = None\<rparr>])"
  by (simp add: ListZones_def request_def ex_lib_def ex_world_def)

lemma ex_ListDNSRecords:
  "fst (ListDNSRecords (ex_lib recs) (ex_world answer) c ''z1'' recordType name content page perPage order direction match t)
    = Inr (if list_ex mutating t then map ex_updated recs else recs)"
  by (simp add: ListDNSRecords_def request_def ex_lib_def ex_world_def Let_def del: QueryEscape.simps)

lemma ex_listed:
  "listed (ex_lib recs) (ex_world answer) c False hostname recordType [ex_zone] t =
     Inr [if list_ex mutating t then map ex_updated recs else recs]"
proof -
  obtain r t2 where l: "ListDNSRecords (ex_lib recs) (ex_world answer) c ''z1'' recordType hostname [] (- 1) (- 1) [] [] [] t = (r, t2)"
    by force
  then have "r = Inr (if list_ex mutating t then map ex_updated recs else recs)"
    using ex_ListDNSRecords [of recs answer c recordType hostname "[]" "- 1" "- 1" "[]" "[]" "[]" t] by simp
  then show ?thesis using l by (simp add: ex_zone_def)
qed


subsection \<open>The record that is matched\<close>

lemma UpdateDNSRecord_url_Content [simp]:
  "UpdateDNSRecord_url (rec\<lparr>Content := c\<rparr>) = UpdateDNSRecord_url rec"
  by (simp add: UpdateDNSRecord_url_def)

lemma updateIP_unique_match:
  assumes zs: "ListZones L W (NewClient key email) domain [] (- 1) (- 1) [] [] [] t = (Inr zones, t1)"
    and ms: "updateIP_zones L W (NewClient key email) verbose hostname ''A'' zones [] t1 = (Inr [rec], t2)"
  shows "updateIP L W key email domain hostname verbose ip t =
           updateIP_record L W (NewClient key email) hostname verbose ip rec t2"
    and "filter mutating t2 = filter mutating t"
    and "Name rec = hostname \<and> Type rec = ''A''"
proof -
  show "updateIP L W key email domain hostname verbose ip t =
           updateIP_record L W (NewClient key email) hostname verbose ip rec t2"
    using zs ms by (simp add: updateIP_def)
  show "filter mutating t2 = filter mutating t"
    using updateIP_listing_mutating [OF zs ms] .
  have "fst (updateIP_zones L W (NewClient key email) verbose hostname ''A'' zones [] t1) = Inr [rec]"
    using ms by simp
  then obtain rss where "filter (\<lambda>rec. Name rec = hostname \<and> Type rec = ''A'') (concat rss) = [rec]"
    by (auto simp: updateIP_zones_listed split: sum.splits)
  then have "rec \<in> set (filter (\<lambda>rec. Name rec = hostname \<and> Type rec = ''A'') (concat rss))"
    by (metis list.set_intros(1))
  then show "Name rec = hostname \<and> Type rec = ''A''"
    by simp
qed

lemma updateIP_record_same:
  "Content rec = IP_String L ip \<Longrightarrow>
   updateIP_record L W c hostname verbose ip rec t =
     (None, t @ [Log (''Record already has IP ['' @ IP_String L ip @ '']. No update performed.'')])"
  by (simp add: updateIP_record_def)

lemma updateIP_record_sends:
  assumes "Content rec \<noteq> IP_String L ip"
    and "Marshal_DNSRecord L (rec\<lparr>Content := IP_String L ip\<rparr>) = Inr payload"
    and "http_NewRequest L ''PUT'' (UpdateDNSRecord_url rec) = None"
  shows "filter mutating (snd (updateIP_record L W c hostname verbose ip rec t)) =
     filter mutating t @
     [HTTPDo \<lparr>req_Method = ''PUT'', req_URL = UpdateDNSRecord_url rec,
              req_Header = [(''X-Auth-Email'', Email c), (''X-Auth-Key'', Key c),
                            (''Content-Type'', ''application/json'')],
              req_Body = Some payload\<rparr>]"
proof -
  let ?rec = "rec\<lparr>Content := IP_String L ip\<rparr>"
  let ?t' = "if verbose then t @ [Log (''Updating record to: '' @ Sprintf_DNSRecord ?rec)] else t"
  let ?put = "HTTPDo \<lparr>req_Method = ''PUT'', req_URL = UpdateDNSRecord_url rec,
              req_Header = [(''X-Auth-Email'', Email c), (''X-Auth-Key'', Key c),
                            (''Content-Type'', ''application/json'')],
              req_Body = Some payload\<rparr>"
  obtain r t'' where u: "UpdateDNSRecord L W c ?rec ?t' = (r, t'')"
    by force
  have "snd (UpdateDNSRecord L W c ?rec ?t') = ?t' @ [?put]"
    using assms(2,3) by (simp add: UpdateDNSRecord_events request_events)
  then have t'': "t'' = ?t' @ [?put]"
    using u by simp
  have "snd (updateIP_record L W c hostname verbose ip rec t) = t'' \<or>
        (\<exists>msg. snd (updateIP_record L W c hostname verbose ip rec t) = t'' @ [Log msg])"
    using assms(1) u by (cases r) (simp_all add: updateIP_record_def Let_def)
  then show ?thesis
    using t'' by auto
qed

subsection \<open>The example run\<close>

lemma ex_dnsLookupHost:
  "dnsLookupHost (ex_lib recs) (ex_world answer) host t =
    (Inr (map the_A (filter is_A answer)),
     t @ [DNSExchange \<lparr>q_Id = 7, q_RecursionDesired = True, q_Name = host @ ''.'',
                       q_Qtype = TypeA, q_Qclass = ClassINET\<rparr> ''192.0.2.53:53''])"
  by (simp add: dnsLookupHost_def ex_getNameserver dnsLookupHost_answers_eq Let_def)
     (simp add: ex_lib_def ex_world_def RcodeSuccess_def dnsLookupHost_answers_eq)

lemma ex_updateIP_zones:
  "fst (updateIP_zones (ex_lib recs) (ex_world answer) c False hostname ''A'' [ex_zone] [] t) =
     Inr (filter (\<lambda>rec. Name rec = hostname \<and> Type rec = ''A'')
            (if list_ex mutating t then map ex_updated recs
             else recs))"
  by (simp only: updateIP_zones_listed ex_listed) simp

lemma ex_record_fields:
  "Name ex_record = ''host.example.com''" "Type ex_record = ''A''"
  "Content ex_record = ''203.0.113.9''"
  by (simp_all add: ex_record_def)

lemma ex_zones_before:
  "\<not> list_ex mutating t \<Longrightarrow>
   updateIP_zones (ex_lib [ex_record]) (ex_world answer) c False ''host.example.com'' ''A''
     [ex_zone] [] t =
   (Inr [ex_record],
    snd (updateIP_zones (ex_lib [ex_record]) (ex_world answer) c False ''host.example.com'' ''A''
          [ex_zone] [] t))"
  using ex_updateIP_zones [of "[ex_record]" answer c "''host.example.com''" t]
  by (simp add: prod_eq_iff ex_record_fields del: updateIP_zones.simps)

lemma ex_zones_after:
  "list_ex mutating t \<Longrightarrow>
   updateIP_zones (ex_lib [ex_record]) (ex_world answer) c False ''host.example.com'' ''A''
     [ex_zone] [] t =
   (Inr [ex_updated ex_record],
    snd (updateIP_zones (ex_lib [ex_record]) (ex_world answer) c False ''host.example.com'' ''A''
          [ex_zone] [] t))"
  using ex_updateIP_zones [of "[ex_record]" answer c "''host.example.com''" t]
  by (simp add: prod_eq_iff ex_record_fields ex_updated_def del: updateIP_zones.simps)

lemma ex_IP_String: "IP_String (ex_lib recs) ex_v4 = ''203.0.113.5''"
  by (simp add: ex_lib_def)

lemma ex_Marshal: "Marshal_DNSRecord (ex_lib recs) rec = Inr (Sprintf_DNSRecord rec)"
  by (simp add: ex_lib_def)

lemma ex_NewRequest: "http_NewRequest (ex_lib recs) method url = None"
  by (simp add: ex_lib_def)

lemma ex_first_run:
  "filter mutating (snd (updateIP (ex_lib [ex_record]) (ex_world []) ''secret'' ''me@example.com''
      ''example.com'' ''host.example.com'' False ex_v4 [])) =
   [HTTPDo \<lparr>req_Method = ''PUT'', req_URL = UpdateDNSRecord_url ex_record,
            req_Header = [(''X-Auth-Email'', ''me@example.com''), (''X-Auth-Key'', ''secret''),
                          (''Content-Type'', ''application/json'')],
            req_Body = Some (Sprintf_DNSRecord (ex_record\<lparr>Content := ''203.0.113.5''\<rparr>))\<rparr>]"
proof -
  note zs = ex_ListZones [where recs = "[ex_record]" and answer = "[]" and t = "[]"
      and c = "NewClient ''secret'' ''me@example.com''" and domain = "''example.com''"]
  have ms: "updateIP_zones (ex_lib [ex_record]) (ex_world []) (NewClient ''secret'' ''me@example.com'')
      False ''host.example.com'' ''A'' [ex_zone] []
      ([] @ [HTTPDo \<lparr>req_Method = ''GET'', req_URL = ListZones_url ''example.com'' [] (- 1) (- 1) [] [] [],
        req_Header = [(''X-Auth-Email'', Email (NewClient ''secret'' ''me@example.com'')),
                      (''X-Auth-Key'', Key (NewClient ''secret'' ''me@example.com'')),
                      (''Content-Type'', ''application/json'')], req_Body = None\<rparr>]) =
      (Inr [ex_record], snd (updateIP_zones (ex_lib [ex_record]) (ex_world []) (NewClient ''secret'' ''me@example.com'')
      False ''host.example.com'' ''A'' [ex_zone] []
      ([] @ [HTTPDo \<lparr>req_Method = ''GET'', req_URL = ListZones_url ''example.com'' [] (- 1) (- 1) [] [] [],
        req_Header = [(''X-Auth-Email'', Email (NewClient ''secret'' ''me@example.com'')),
                      (''X-Auth-Key'', Key (NewClient ''secret'' ''me@example.com'')),
                      (''Content-Type'', ''application/json'')], req_Body = None\<rparr>])))"
    by (rule ex_zones_before) simp
  have "Content ex_record \<noteq> IP_String (ex_lib [ex_record]) ex_v4"
    by (simp add: ex_IP_String ex_record_fields)
  then show ?thesis
    using updateIP_unique_match(1) [OF zs ms, where ip = ex_v4]
      updateIP_unique_match(2) [OF zs ms]
      updateIP_record_sends [OF _ ex_Marshal ex_NewRequest, of ex_record "[ex_record]" ex_v4]
    by (simp add: ex_IP_String NewClient_def)
qed

lemma ex_match_before:
  "\<not> list_ex mutating t \<Longrightarrow>
   updateIP_zones (ex_lib [ex_record]) (ex_world answer) c False ''host.example.com'' ''A''
     [ex_zone] []
     (t @ [HTTPDo \<lparr>req_Method = ''GET'', req_URL = u, req_Header = h, req_Body = b\<rparr>]) =
   (Inr [ex_record],
    snd (updateIP_zones (ex_lib [ex_record]) (ex_world answer) c False ''host.example.com'' ''A''
          [ex_zone] []
          (t @ [HTTPDo \<lparr>req_Method = ''GET'', req_URL = u, req_Header = h, req_Body = b\<rparr>])))"
  by (rule ex_zones_before) simp

lemma ex_match_after:
  "list_ex mutating t \<Longrightarrow>
   updateIP_zones (ex_lib [ex_record]) (ex_world answer) c False ''host.example.com'' ''A''
     [ex_zone] []
     (t @ [HTTPDo \<lparr>req_Method = ''GET'', req_URL = u, req_Header = h, req_Body = b\<rparr>]) =
   (Inr [ex_updated ex_record],
    snd (updateIP_zones (ex_lib [ex_record]) (ex_world answer) c False ''host.example.com'' ''A''
          [ex_zone] []
          (t @ [HTTPDo \<lparr>req_Method = ''GET'', req_URL = u, req_Header = h, req_Body = b\<rparr>])))"
  by (rule ex_zones_after) simp

lemma ex_first_run_mutating:
  "list_ex mutating (snd (updateIP (ex_lib [ex_record]) (ex_world []) ''secret'' ''me@example.com''
      ''example.com'' ''host.example.com'' False ex_v4 []))"
proof -
  have "filter mutating (snd (updateIP (ex_lib [ex_record]) (ex_world []) ''secret'' ''me@example.com''
      ''example.com'' ''host.example.com'' False ex_v4 [])) \<noteq> []"
    by (simp add: ex_first_run)
  then show ?thesis
    by (simp add: list_ex_iff filter_empty_conv)
qed

subsection \<open>The events of the whole run\<close>

lemma update_event_no_lookup: "list_all update_event es \<Longrightarrow> IcanhazipLookup \<notin> set es"
  by (induction es) auto

lemma main_update_appends:
  "\<exists>es. snd (main_update L W args key ip t) = t @ es \<and> IcanhazipLookup \<notin> set es"
proof -
  have upd: "\<exists>es. snd (case updateIP L W key (Args_Email args) (Args_Domain args)
                            (Args_Hostname args) (Args_Verbose args) ip u of
                       (Some err, t') \<Rightarrow> Fatal err t'
                     | (None, t') \<Rightarrow> (0, t')) = u @ es \<and> IcanhazipLookup \<notin> set es" for u
  proof -
    obtain r t' where u: "updateIP L W key (Args_Email args) (Args_Domain args)
                            (Args_Hostname args) (Args_Verbose args) ip u = (r, t')"
      by force
    obtain es where es: "t' = u @ es" "IcanhazipLookup \<notin> set es"
      using updateIP_appends [of L W key "Args_Email args" "Args_Domain args" "Args_Hostname args"
          "Args_Verbose args" ip u] u
      by (auto dest: update_event_no_lookup)
    show ?thesis
    proof (cases r)
      case None
      then show ?thesis using u es by auto
    next
      case (Some err)
      have "u @ es @ [Log err] = u @ (es @ [Log err])" "IcanhazipLookup \<notin> set (es @ [Log err])"
        using es by simp_all
      moreover have "snd (case updateIP L W key (Args_Email args) (Args_Domain args)
                            (Args_Hostname args) (Args_Verbose args) ip u of
                       (Some err, t') \<Rightarrow> Fatal err t'
                     | (None, t') \<Rightarrow> (0, t')) = u @ es @ [Log err]"
        using u es Some by (simp add: Fatal_def)
      ultimately show ?thesis by metis
    qed
  qed
  show ?thesis
  proof (cases "Args_OnlyIfDifferent args")
    case False
    then show ?thesis using upd [of t] by (simp add: main_update_def)
  next
    case True
    obtain r t1 where d: "dnsLookupHost L W (Args_Hostname args) t = (r, t1)"
      by force
    obtain es1 where es1: "t1 = t @ es1" "IcanhazipLookup \<notin> set es1"
      using dnsLookupHost_appends [of L W "Args_Hostname args" t] d
      by (auto simp: list_all_iff)
    have ext: "\<exists>es. t1 @ more = t @ es \<and> IcanhazipLookup \<notin> set es"
      if "IcanhazipLookup \<notin> set more" for more
      using es1 that by auto
    show ?thesis
    proof (cases r)
      case (Inl err)
      then show ?thesis using True d ext [of "[Log err]"] by (simp add: main_update_def Fatal_def)
    next
      case (Inr ips)
      let ?t2 = "if Args_Verbose args
                 then t1 @ [Log (''Host'' @ [CHR 0x27] @ ''s current IP is '' @ IP_String L (ips ! 0))]
                 else t1"
      define m2 where "m2 = (if Args_Verbose args
          then [Log (''Host'' @ [CHR 0x27] @ ''s current IP is '' @ IP_String L (ips ! 0))]
          else [])"
      have m2: "?t2 = t1 @ m2" "IcanhazipLookup \<notin> set m2"
        by (simp_all add: m2_def)
      obtain es3 where es3: "snd (case updateIP L W key (Args_Email args) (Args_Domain args)
                            (Args_Hostname args) (Args_Verbose args) ip ?t2 of
                       (Some err, t') \<Rightarrow> Fatal err t'
                     | (None, t') \<Rightarrow> (0, t')) = ?t2 @ es3" "IcanhazipLookup \<notin> set es3"
        using upd [of ?t2] by blast
      have "?t2 @ es3 = t1 @ (m2 @ es3)" "IcanhazipLookup \<notin> set (m2 @ es3)"
        using m2 es3 by simp_all
      then have c: "\<exists>es. ?t2 @ es3 = t @ es \<and> IcanhazipLookup \<notin> set es"
        using ext [of "m2 @ es3"] by simp
      consider "length ips = 0" | "length ips > 1" | "length ips = 1" "IP_Equal (ips ! 0) ip"
        | "length ips = 1" "\<not> IP_Equal (ips ! 0) ip"
        by linarith
      then show ?thesis
      proof cases
        case 1
        then have "snd (main_update L W args key ip t) =
            t1 @ [Log ''Unable to determine current record IP via DNS. No IPs found.'']"
          using True d Inr by (simp add: main_update_def Fatal_def)
        then show ?thesis
          using ext [of "[Log ''Unable to determine current record IP via DNS. No IPs found.'']"]
          by simp
      next
        case 2
        then have "ips \<noteq> []"
          by auto
        with 2 have "snd (main_update L W args key ip t) =
            t1 @ [Log (''There are '' @ Sprintf_d (int (length ips)) @
                       '' A records. Unable to update.'')]"
          using True d Inr by (simp add: main_update_def Fatal_def)
        then show ?thesis
          using ext [of "[Log (''There are '' @ Sprintf_d (int (length ips)) @
                               '' A records. Unable to update.'')]"]
          by simp
      next
        case 3
        let ?l = "Log (''DNS record'' @ [CHR 0x27] @ ''s IP matches IP provided/found ('' @
                       IP_String L ip @ ''). Not making an update.'')"
        have "snd (main_update L W args key ip t) =
            t1 @ (if Args_Verbose args then m2 @ [?l] else m2)"
          using 3 True d Inr by (simp add: main_update_def Let_def m2_def)
        moreover have "IcanhazipLookup \<notin> set (if Args_Verbose args then m2 @ [?l] else m2)"
          using m2 by simp
        ultimately show ?thesis
          using ext [of "if Args_Verbose args then m2 @ [?l] else m2"] by simp
      next
        case 4
        then have "snd (main_update L W args key ip t) = ?t2 @ es3"
          using True d Inr es3 by (simp add: main_update_def Let_def)
        then show ?thesis
          using c by simp
      qed
    qed
  qed
qed

lemma getArgs_IP:
  "getArgs L fl = Inr args \<Longrightarrow>
   Args_IP args = (if flag_ip fl = [] then None else ParseIP L (flag_ip fl)) \<and>
   (flag_ip fl \<noteq> [] \<longrightarrow> ParseIP L (flag_ip fl) \<noteq> None)"
  by (auto simp: getArgs_def split: if_splits option.splits)

lemma ex_getArgs:
  "getArgs (ex_lib recs) (ex_flags ''203.0.113.5'' different) = Inr (ex_args different)"
  by (simp add: getArgs_def ex_flags_def ex_lib_def ex_args_def)

lemma ex_IP_String_v6: "IP_String (ex_lib recs) ex_v6 = ''2001:db8::1''"
  by (simp add: ex_lib_def ex_v4_def ex_v6_def)

subsection \<open>The query string of ListZones\<close>

lemma Join_snoc: "Join (xs @ [x]) sep = (if xs = [] then x else Join xs sep @ sep @ x)"
  by (induction xs sep rule: Join.induct) auto

lemma suffix_Join_last: "suffix x (pre @ Join (xs @ [x]) sep)"
  by (simp add: Join_snoc suffix_def)

lemma QueryEscape_status: "QueryEscape ''status'' = ''status''" "QueryEscape ''active'' = ''active''"
  by (simp_all add: shouldEscape_def)

lemma encode_status_active:
  "map (\<lambda>(k, v). QueryEscape k @ ''='' @ QueryEscape v) (front @ [(''status'', ''active'')]) =
   map (\<lambda>(k, v). QueryEscape k @ ''='' @ QueryEscape v) front @ [''status=active'']"
  by (simp add: QueryEscape_status del: QueryEscape.simps)

lemma ListZones_pairs:
  "Values_pairs (ListZones_values name status page perPage order direction match) =
     ((if direction = [] then [] else [(''direction'', direction)]) @
      (if match = [] then [] else [(''match'', match)]) @
      (if name = [] then [] else [(''name'', name)]) @
      (if order = [] then [] else [(''order'', order)]) @
      (if page > 0 then [(''page'', Sprintf_d page)] else []) @
      (if perPage > 0 then [(''per_page'', Sprintf_d perPage)] else [])) @
     [(''status'', if status = [] then ''active'' else status)]"
  by (simp add: ListZones_values_def Values_pairs_def Let_def)

lemma Sprintf_d_examples: "Sprintf_d 2 = ''2''" "Sprintf_d 50 = ''50''"
  by code_simp+

subsection \<open>The lines of the resolver configuration\<close>

lemma getNameserver_scan_first:
  "getNameserver_scan lines None =
    (case find (\<lambda>text. text \<noteq> [] \<and> hd text \<noteq> CHR ''#'' \<and>
                       length (Split text (CHR '' '')) = 2 \<and>
                       Split text (CHR '' '') ! 0 = ''nameserver'')
            (map TrimSpace lines) of
       None \<Rightarrow> Inl ''No resolver found''
     | Some text \<Rightarrow> Inr (Split text (CHR '' '') ! 1))"
  by (induction lines) (auto simp: Let_def)

lemma scan_tab_line:
  "getNameserver_scan [''nameserver'' @ [CHR 0x09] @ ''8.8.8.8''] None = Inl ''No resolver found''"
  by code_simp

lemma scan_tab_then_space:
  "getNameserver_scan [''nameserver'' @ [CHR 0x09] @ ''1.1.1.1'', ''nameserver 8.8.8.8''] None
     = Inr ''8.8.8.8''"
  by code_simp

lemma updateIP_record_result:
  "fst (updateIP_record L W c hostname verbose ip rec t) = None \<or>
   (\<exists>err. fst (updateIP_record L W c hostname verbose ip rec t) =
            Some (''Unable to update DNS record: '' @ err))"
  by (simp add: updateIP_record_def Let_def split: prod.splits option.splits)

subsection \<open>The update as the whole run sends it\<close>

lemma updateIP_writes:
  assumes zs: "ListZones L W (NewClient key email) domain [] (- 1) (- 1) [] [] [] t = (Inr zones, t1)"
    and ms: "updateIP_zones L W (NewClient key email) verbose hostname ''A'' zones [] t1 = (Inr [rec], t2)"
    and differs: "Content rec \<noteq> IP_String L ip"
    and marshal: "Marshal_DNSRecord L (rec\<lparr>Content := IP_String L ip\<rparr>) = Inr payload"
    and newreq: "http_NewRequest L ''PUT'' (UpdateDNSRecord_url rec) = None"
  shows "filter mutating (snd (updateIP L W key email domain hostname verbose ip t)) =
     filter mutating t @
     [HTTPDo \<lparr>req_Method = ''PUT'', req_URL = UpdateDNSRecord_url rec,
              req_Header = [(''X-Auth-Email'', email), (''X-Auth-Key'', key),
                            (''Content-Type'', ''application/json'')],
              req_Body = Some payload\<rparr>]"
  using updateIP_unique_match(1) [OF zs ms, of ip] updateIP_unique_match(2) [OF zs ms]
    updateIP_record_sends [OF differs marshal newreq, where c = "NewClient key email"
      and hostname = hostname and verbose = verbose and t = t2 and W = W]
  by (simp add: NewClient_def)

lemma dnsLookupHost_mutating:
  "filter mutating (snd (dnsLookupHost L W host t)) = filter mutating t"
  by (auto simp: dnsLookupHost_def Let_def split: sum.splits)

lemma main_update_direct:
  "\<not> Args_OnlyIfDifferent args \<Longrightarrow>
   filter mutating (snd (main_update L W args key ip t)) =
   filter mutating (snd (updateIP L W key (Args_Email args) (Args_Domain args)
                          (Args_Hostname args) (Args_Verbose args) ip t))"
  by (simp add: main_update_def Fatal_def split: prod.splits option.splits)

lemma main_update_changed:
  assumes "Args_OnlyIfDifferent args"
    and "dnsLookupHost L W (Args_Hostname args) t = (Inr [cur], d1)"
    and "\<not> IP_Equal cur ip"
  shows "filter mutating (snd (main_update L W args key ip t)) =
   filter mutating (snd (updateIP L W key (Args_Email args) (Args_Domain args)
       (Args_Hostname args) (Args_Verbose args) ip
       (if Args_Verbose args
        then d1 @ [Log (''Host'' @ [CHR 0x27] @ ''s current IP is '' @ IP_String L cur)]
        else d1)))"
  using assms by (simp add: main_update_def Let_def Fatal_def split: prod.splits option.splits)

subsection \<open>The example runs, continued\<close>

lemma ex_refusing_ListZones:
  "ListZones ex_refusing_lib ex_refusing_world c domain [] (- 1) (- 1) [] [] [] t =
    (Inr [ex_zone],
     t @ [HTTPDo \<lparr>req_Method = ''GET'', req_URL = ListZones_url domain [] (- 1) (- 1) [] [] [],
                   req_Header = [(''X-Auth-Email'', Email c), (''X-Auth-Key'', Key c),
                                 (''Content-Type'', ''application/json'')],
                   req_Body = None\<rparr>])"
  by (simp add: ListZones_def request_def ex_refusing_lib_def ex_refusing_world_def ex_lib_def
      ex_world_def)

lemma ex_refusing_ListDNSRecords:
  "fst (ListDNSRecords ex_refusing_lib ex_refusing_world c ''z1'' recordType name content page
         perPage order direction match t) = Inr [ex_record]"
  by (simp add: ListDNSRecords_def request_def ex_refusing_lib_def ex_refusing_world_def
      ex_lib_def ex_world_def Let_def del: QueryEscape.simps)

lemma ex_refusing_listed:
  "listed ex_refusing_lib ex_refusing_world c False hostname recordType [ex_zone] t =
     Inr [[ex_record]]"
proof -
  obtain r t2 where l: "ListDNSRecords ex_refusing_lib ex_refusing_world c ''z1'' recordType
      hostname [] (- 1) (- 1) [] [] [] t = (r, t2)"
    by force
  then have "r = Inr [ex_record]"
    using ex_refusing_ListDNSRecords [of c recordType hostname "[]" "- 1" "- 1" "[]" "[]" "[]" t]
    by simp
  then show ?thesis using l by (simp add: ex_zone_def)
qed

lemma ex_refusing_match:
  "updateIP_zones ex_refusing_lib ex_refusing_world c False ''host.example.com'' ''A''
     [ex_zone] [] t =
   (Inr [ex_record],
    snd (updateIP_zones ex_refusing_lib ex_refusing_world c False ''host.example.com'' ''A''
          [ex_zone] [] t))"
proof -
  have "fst (updateIP_zones ex_refusing_lib ex_refusing_world c False ''host.example.com'' ''A''
     [ex_zone] [] t) = Inr [ex_record]"
    by (simp only: updateIP_zones_listed ex_refusing_listed) (simp add: ex_record_fields)
  then show ?thesis
    by (simp add: prod_eq_iff del: updateIP_zones.simps)
qed

lemma ex_refusing_facts:
  "Content ex_record \<noteq> IP_String ex_refusing_lib ex_v4"
  "Marshal_DNSRecord ex_refusing_lib rec = Inr (Sprintf_DNSRecord rec)"
  "http_NewRequest ex_refusing_lib method url = None"
  by (simp_all add: ex_refusing_lib_def ex_lib_def ex_record_fields)

lemma ex_updated_Content: "Content (ex_updated rec) = IP_String (ex_lib recs) ex_v4"
  by (simp add: ex_updated_def ex_IP_String)

lemma ex_flags_fields:
  "flag_email (ex_flags s different) = ''me@example.com''"
  "flag_domain (ex_flags s different) = ''example.com''"
  "flag_hostname (ex_flags s different) = ''host.example.com''"
  "flag_key_file (ex_flags s different) = ''/etc/cf.key''"
  "flag_ip (ex_flags s different) = s"
  "flag_only_if_different (ex_flags s different) = different"
  "flag_verbose (ex_flags s different) = False"
  by (simp_all add: ex_flags_def)

lemma ex_ParseIP_v6: "ParseIP (ex_lib recs) ''2001:db8::1'' = Some ex_v6"
  by (simp add: ex_lib_def)

lemma ex_not_Equal_v6: "\<not> IP_Equal ex_current ex_v6"
  by (simp add: IP_Equal_def ex_current_def ex_v6_def v4InV6Prefix_def)

section \<open>The properties\<close>

subsection \<open>C1: exactly one matching record\<close>

text \<open>
  Claim C1. In \<open>updateIP\<close>, once the zones of the domain and the records of each zone are
  listed, the records that are kept are those, over all zones, whose name is the host name
  and whose type is \<^verbatim>\<open>A\<close>. With none the run fails with the error "Record not found",
  with two or more it fails with the error "Multiple matching records found", and in both
  cases no request that changes something is sent. With exactly one, and only then, the
  run goes on to that record.
\<close>

theorem updateIP_selects_unique_match:
  assumes zs: "ListZones L W (NewClient key email) domain [] (- 1) (- 1) [] [] [] t = (Inr zones, t1)"
    and ls: "listed L W (NewClient key email) verbose hostname ''A'' zones t1 = Inr rss"
  shows "let matching = filter (\<lambda>rec. Name rec = hostname \<and> Type rec = ''A'') (concat rss);
             run = updateIP L W key email domain hostname verbose ip t;
             notFound = Some ''Record not found. No update performed.'';
             multiple = Some ''Multiple matching records found. Unable to perform update.''
         in (length matching = 0 \<longrightarrow>
               fst run = notFound \<and> filter mutating (snd run) = filter mutating t) \<and>
            (length matching > 1 \<longrightarrow>
               fst run = multiple \<and> filter mutating (snd run) = filter mutating t) \<and>
            (length matching = 1 \<longrightarrow>
               fst run \<noteq> notFound \<and> fst run \<noteq> multiple \<and>
               (\<exists>t2. run = updateIP_record L W (NewClient key email) hostname verbose ip
                              (hd matching) t2 \<and> filter mutating t2 = filter mutating t))"
proof -
  let ?c = "NewClient key email"
  let ?m = "filter (\<lambda>rec. Name rec = hostname \<and> Type rec = ''A'') (concat rss)"
  obtain r t2 where z: "updateIP_zones L W ?c verbose hostname ''A'' zones [] t1 = (r, t2)"
    by force
  have "fst (updateIP_zones L W ?c verbose hostname ''A'' zones [] t1) = Inr ?m"
    using ls by (simp add: updateIP_zones_listed)
  then have r: "r = Inr ?m"
    using z by simp
  have m: "filter mutating t2 = filter mutating t"
    using updateIP_listing_mutating [OF zs z] .
  have run: "updateIP L W key email domain hostname verbose ip t =
      (if length ?m = 0 then (Some ''Record not found. No update performed.'', t2)
       else if length ?m > 1
       then (Some ''Multiple matching records found. Unable to perform update.'', t2)
       else updateIP_record L W ?c hostname verbose ip (?m ! 0) t2)"
    using zs z r by (simp add: updateIP_def Let_def)
  have one: "length ?m = 1 \<Longrightarrow> ?m ! 0 = hd ?m"
    by (cases ?m) auto
  have other: "fst (updateIP_record L W ?c hostname verbose ip (hd ?m) t2) \<noteq>
                 Some ''Record not found. No update performed.'' \<and>
               fst (updateIP_record L W ?c hostname verbose ip (hd ?m) t2) \<noteq>
                 Some ''Multiple matching records found. Unable to perform update.''"
    using updateIP_record_result [of L W ?c hostname verbose ip "hd ?m" t2] by auto
  show ?thesis
    unfolding Let_def run using m one other by auto
qed

theorem updateIP_selects_unique_match_witness:
  "fst (updateIP (ex_lib []) (ex_world []) ''secret'' ''me@example.com'' ''example.com''
          ''host.example.com'' False ex_v4 []) = Some ''Record not found. No update performed.'' \<and>
   fst (updateIP (ex_lib [ex_record, ex_record]) (ex_world []) ''secret'' ''me@example.com''
          ''example.com'' ''host.example.com'' False ex_v4 [])
     = Some ''Multiple matching records found. Unable to perform update.'' \<and>
   (\<exists>t2. updateIP (ex_lib [ex_record]) (ex_world []) ''secret'' ''me@example.com''
            ''example.com'' ''host.example.com'' False ex_v4 [] =
          updateIP_record (ex_lib [ex_record]) (ex_world []) (NewClient ''secret'' ''me@example.com'')
            ''host.example.com'' False ex_v4 ex_record t2)"
proof -
  have r: "Name ex_record = ''host.example.com''" "Type ex_record = ''A''"
    by (simp_all add: ex_record_def)
  have "fst (updateIP (ex_lib []) (ex_world []) ''secret'' ''me@example.com'' ''example.com''
          ''host.example.com'' False ex_v4 []) = Some ''Record not found. No update performed.''"
    using updateIP_selects_unique_match [where L = "ex_lib []" and W = "ex_world []" and key = "''secret''"
      and email = "''me@example.com''" and domain = "''example.com''" and t = "[]" and verbose = False
      and hostname = "''host.example.com''" and ip = ex_v4, OF ex_ListZones ex_listed]
    by (simp add: Let_def)
  moreover have "fst (updateIP (ex_lib [ex_record, ex_record]) (ex_world []) ''secret''
          ''me@example.com'' ''example.com'' ''host.example.com'' False ex_v4 [])
     = Some ''Multiple matching records found. Unable to perform update.''"
    using updateIP_selects_unique_match [where L = "ex_lib [ex_record, ex_record]" and W = "ex_world []" and key = "''secret''"
      and email = "''me@example.com''" and domain = "''example.com''" and t = "[]" and verbose = False
      and hostname = "''host.example.com''" and ip = ex_v4, OF ex_ListZones ex_listed]
    by (simp add: Let_def r)
  moreover have "\<exists>t2. updateIP (ex_lib [ex_record]) (ex_world []) ''secret'' ''me@example.com''
            ''example.com'' ''host.example.com'' False ex_v4 [] =
          updateIP_record (ex_lib [ex_record]) (ex_world []) (NewClient ''secret'' ''me@example.com'')
            ''host.example.com'' False ex_v4 ex_record t2"
    using updateIP_selects_unique_match [where L = "ex_lib [ex_record]" and W = "ex_world []" and key = "''secret''"
      and email = "''me@example.com''" and domain = "''example.com''" and t = "[]" and verbose = False
      and hostname = "''host.example.com''" and ip = ex_v4, OF ex_ListZones ex_listed]
    by (auto simp: Let_def r)
  ultimately show ?thesis by blast
qed

subsection \<open>C2: update only if different\<close>

text \<open>
  Claim C2. When only a different address is to be set, the DNS lookup of the host name has
  to give exactly one address. With none the run is fatal, with more than one it is fatal,
  and in both cases no request has been sent to the provider; when the one address equals
  the address to set, the run ends with success and without a request to the provider.
\<close>

theorem main_update_only_if_different:
  assumes oid: "Args_OnlyIfDifferent args"
    and dns: "dnsLookupHost L W (Args_Hostname args) t = (Inr ips, t1)"
  shows "let run = main_update L W args key ip t
         in (length ips = 0 \<longrightarrow>
               run = (1, t1 @ [Log ''Unable to determine current record IP via DNS. No IPs found.'']) \<and>
               filter provider_call (snd run) = filter provider_call t) \<and>
            (length ips > 1 \<longrightarrow>
               run = (1, t1 @ [Log (''There are '' @ Sprintf_d (int (length ips)) @
                                    '' A records. Unable to update.'')]) \<and>
               filter provider_call (snd run) = filter provider_call t) \<and>
            (length ips = 1 \<and> IP_Equal (ips ! 0) ip \<longrightarrow>
               fst run = 0 \<and> filter provider_call (snd run) = filter provider_call t)"
proof -
  have p: "filter provider_call t1 = filter provider_call t"
    using dnsLookupHost_provider [of L W "Args_Hostname args" t] dns by simp
  show ?thesis
    using oid dns p by (auto simp: main_update_def Let_def Fatal_def)
qed

theorem main_update_only_if_different_witness:
  "fst (main_update (ex_lib [ex_record]) (ex_world [CNAME ''h.example.com'']) (ex_args True) ''secret'' ex_v4 []) = 1 \<and>
   fst (main_update (ex_lib [ex_record]) (ex_world [A ex_current, A [203, 0, 113, 5]]) (ex_args True) ''secret'' ex_v4 []) = 1 \<and>
   fst (main_update (ex_lib [ex_record]) (ex_world [A [203, 0, 113, 5]]) (ex_args True) ''secret'' ex_v4 []) = 0 \<and>
   filter provider_call (snd (main_update (ex_lib [ex_record]) (ex_world [A [203, 0, 113, 5]]) (ex_args True) ''secret'' ex_v4 [])) = []"
proof -
  have a: "Args_OnlyIfDifferent (ex_args True)"
    by (simp add: ex_args_def)
  have e: "IP_Equal [203, 0, 113, 5] ex_v4"
    by (simp add: IP_Equal_def ex_v4_def v4InV6Prefix_def)
  show ?thesis
    using main_update_only_if_different [OF a ex_dnsLookupHost [where answer = "[CNAME ''h.example.com'']" and recs = "[ex_record]" and t = "[]"],
        where ip = ex_v4 and key = "''secret''"]
      main_update_only_if_different [OF a ex_dnsLookupHost [where answer = "[A ex_current, A [203, 0, 113, 5]]" and recs = "[ex_record]" and t = "[]"],
        where ip = ex_v4 and key = "''secret''"]
      main_update_only_if_different [OF a ex_dnsLookupHost [where answer = "[A [203, 0, 113, 5]]" and recs = "[ex_record]" and t = "[]"],
        where ip = ex_v4 and key = "''secret''"]
      e
    by (simp add: Let_def)
qed

subsection \<open>C3: a second run changes nothing\<close>

text \<open>
  Claim C3, as amended. Let \<open>rec\<close> be the one record that matches. When its content is
  the text of the address to set, \<open>updateIP\<close> sends no request that changes something,
  writes that the record already has the address, and succeeds. Otherwise it sends exactly
  one such request, the update. A second run for the same address sends no request that
  changes something and writes that the record already has the address, whenever the one
  record its listing matches has the text of the address as its content, as it has once
  the provider has applied the update; the other fields of that record may have changed.
\<close>

theorem updateIP_idempotent:
  assumes zs: "ListZones L W (NewClient key email) domain [] (- 1) (- 1) [] [] [] t = (Inr zones, t1)"
    and ms: "updateIP_zones L W (NewClient key email) verbose hostname ''A'' zones [] t1 = (Inr [rec], t2)"
  shows "let first = updateIP L W key email domain hostname verbose ip t;
             second = updateIP L W key email domain hostname verbose ip (snd first);
             uptodate = Log (''Record already has IP ['' @ IP_String L ip @
                             '']. No update performed.'')
         in (Content rec = IP_String L ip \<longrightarrow>
               first = (None, t2 @ [uptodate]) \<and>
               filter mutating (snd first) = filter mutating t) \<and>
            (\<forall>payload.
               Content rec \<noteq> IP_String L ip \<and>
               Marshal_DNSRecord L (rec\<lparr>Content := IP_String L ip\<rparr>) = Inr payload \<and>
               http_NewRequest L ''PUT'' (UpdateDNSRecord_url rec) = None \<longrightarrow>
               filter mutating (snd first) =
                 filter mutating t @
                 [HTTPDo \<lparr>req_Method = ''PUT'', req_URL = UpdateDNSRecord_url rec,
                          req_Header = [(''X-Auth-Email'', email), (''X-Auth-Key'', key),
                                        (''Content-Type'', ''application/json'')],
                          req_Body = Some payload\<rparr>]) \<and>
            (\<forall>zones' u1 rec' u2.
               ListZones L W (NewClient key email) domain [] (- 1) (- 1) [] [] [] (snd first) =
                 (Inr zones', u1) \<and>
               updateIP_zones L W (NewClient key email) verbose hostname ''A'' zones' [] u1 =
                 (Inr [rec'], u2) \<and>
               Content rec' = IP_String L ip \<longrightarrow>
               second = (None, u2 @ [uptodate]) \<and>
               filter mutating (snd second) = filter mutating (snd first))"
proof -
  let ?first = "updateIP L W key email domain hostname verbose ip t"
  let ?second = "updateIP L W key email domain hostname verbose ip (snd ?first)"
  let ?c = "NewClient key email"
  let ?uptodate = "Log (''Record already has IP ['' @ IP_String L ip @ '']. No update performed.'')"
  have first: "?first = updateIP_record L W ?c hostname verbose ip rec t2"
    and t2: "filter mutating t2 = filter mutating t"
    using updateIP_unique_match [OF zs ms] by simp_all
  have same: "Content rec = IP_String L ip \<longrightarrow>
      ?first = (None, t2 @ [?uptodate]) \<and> filter mutating (snd ?first) = filter mutating t"
    using first t2 by (simp add: updateIP_record_same)
  have differs: "\<forall>payload.
      Content rec \<noteq> IP_String L ip \<and>
      Marshal_DNSRecord L (rec\<lparr>Content := IP_String L ip\<rparr>) = Inr payload \<and>
      http_NewRequest L ''PUT'' (UpdateDNSRecord_url rec) = None \<longrightarrow>
      filter mutating (snd ?first) =
        filter mutating t @
        [HTTPDo \<lparr>req_Method = ''PUT'', req_URL = UpdateDNSRecord_url rec,
                 req_Header = [(''X-Auth-Email'', email), (''X-Auth-Key'', key),
                               (''Content-Type'', ''application/json'')],
                 req_Body = Some payload\<rparr>]"
    using updateIP_writes [OF zs ms] by blast
  have again: "\<forall>zones' u1 rec' u2.
      ListZones L W ?c domain [] (- 1) (- 1) [] [] [] (snd ?first) = (Inr zones', u1) \<and>
      updateIP_zones L W ?c verbose hostname ''A'' zones' [] u1 = (Inr [rec'], u2) \<and>
      Content rec' = IP_String L ip \<longrightarrow>
      ?second = (None, u2 @ [?uptodate]) \<and>
      filter mutating (snd ?second) = filter mutating (snd ?first)"
  proof (intro allI impI)
    fix zones' u1 rec' u2
    assume h: "ListZones L W ?c domain [] (- 1) (- 1) [] [] [] (snd ?first) = (Inr zones', u1) \<and>
      updateIP_zones L W ?c verbose hostname ''A'' zones' [] u1 = (Inr [rec'], u2) \<and>
      Content rec' = IP_String L ip"
    then have zs': "ListZones L W ?c domain [] (- 1) (- 1) [] [] [] (snd ?first) = (Inr zones', u1)"
      and ms': "updateIP_zones L W ?c verbose hostname ''A'' zones' [] u1 = (Inr [rec'], u2)"
      and c': "Content rec' = IP_String L ip"
      by simp_all
    have "?second = updateIP_record L W ?c hostname verbose ip rec' u2"
      and "filter mutating u2 = filter mutating (snd ?first)"
      using updateIP_unique_match [OF zs' ms'] by simp_all
    then show "?second = (None, u2 @ [?uptodate]) \<and>
        filter mutating (snd ?second) = filter mutating (snd ?first)"
      using c' by (simp add: updateIP_record_same)
  qed
  show ?thesis
    unfolding Let_def using same differs again by (intro conjI)
qed

theorem updateIP_idempotent_witness:
  "let first = updateIP (ex_lib [ex_record]) (ex_world []) ''secret'' ''me@example.com''
                 ''example.com'' ''host.example.com'' False ex_v4 [];
       second = updateIP (ex_lib [ex_record]) (ex_world []) ''secret'' ''me@example.com''
                  ''example.com'' ''host.example.com'' False ex_v4 (snd first)
   in length (filter mutating (snd first)) = 1 \<and> fst second = None \<and>
      length (filter mutating (snd second)) = 1"
proof -
  have e: "\<not> list_ex mutating []"
    by simp
  have d: "Content ex_record \<noteq> IP_String (ex_lib [ex_record]) ex_v4"
    by (simp add: ex_IP_String ex_record_fields)
  note run = updateIP_idempotent [OF ex_ListZones ex_match_before [OF e], unfolded Let_def,
      where ip = ex_v4]
  note once = run [THEN conjunct2, THEN conjunct1, rule_format,
      OF conjI [OF d conjI [OF ex_Marshal ex_NewRequest]]]
  note again = run [THEN conjunct2, THEN conjunct2, rule_format,
      OF conjI [OF ex_ListZones conjI [OF ex_match_after [OF ex_first_run_mutating]
            ex_updated_Content]]]
  note same = updateIP_idempotent
      [OF ex_ListZones ex_match_after [OF ex_first_run_mutating], unfolded Let_def,
       where ip = ex_v4, THEN conjunct1, rule_format, OF ex_updated_Content]
  have "length (filter mutating (snd (updateIP (ex_lib [ex_record]) (ex_world []) ''secret''
          ''me@example.com'' ''example.com'' ''host.example.com'' False ex_v4 []))) = 1"
    using once by simp
  moreover have "fst (updateIP (ex_lib [ex_record]) (ex_world []) ''secret'' ''me@example.com''
          ''example.com'' ''host.example.com'' False ex_v4
          (snd (updateIP (ex_lib [ex_record]) (ex_world []) ''secret'' ''me@example.com''
                 ''example.com'' ''host.example.com'' False ex_v4 []))) = None"
    using same by (simp del: updateIP_zones.simps)
  moreover have "filter mutating (snd (updateIP (ex_lib [ex_record]) (ex_world []) ''secret''
          ''me@example.com'' ''example.com'' ''host.example.com'' False ex_v4
          (snd (updateIP (ex_lib [ex_record]) (ex_world []) ''secret'' ''me@example.com''
                 ''example.com'' ''host.example.com'' False ex_v4 [])))) =
        filter mutating (snd (updateIP (ex_lib [ex_record]) (ex_world []) ''secret''
          ''me@example.com'' ''example.com'' ''host.example.com'' False ex_v4 []))"
    using again by blast
  ultimately show ?thesis
    by (simp add: Let_def)
qed

text \<open>
  Claim C3 as it is written, with nothing said of the provider, does not hold: with a
  provider that refuses the update, the first run sends one \<^verbatim>\<open>PUT\<close> and the second run
  sends another.
\<close>

theorem updateIP_second_run_counterexample:
  "length (filter mutating (snd (updateIP ex_refusing_lib ex_refusing_world ''secret''
      ''me@example.com'' ''example.com'' ''host.example.com'' False ex_v4 []))) = 1 \<and>
   length (filter mutating (snd (updateIP ex_refusing_lib ex_refusing_world ''secret''
      ''me@example.com'' ''example.com'' ''host.example.com'' False ex_v4
      (snd (updateIP ex_refusing_lib ex_refusing_world ''secret''
         ''me@example.com'' ''example.com'' ''host.example.com'' False ex_v4 []))))) = 2"
proof -
  have run: "filter mutating (snd (updateIP ex_refusing_lib ex_refusing_world ''secret''
      ''me@example.com'' ''example.com'' ''host.example.com'' False ex_v4 t)) =
    filter mutating t @
     [HTTPDo \<lparr>req_Method = ''PUT'', req_URL = UpdateDNSRecord_url ex_record,
              req_Header = [(''X-Auth-Email'', ''me@example.com''), (''X-Auth-Key'', ''secret''),
                            (''Content-Type'', ''application/json'')],
              req_Body = Some (Sprintf_DNSRecord
                 (ex_record\<lparr>Content := IP_String ex_refusing_lib ex_v4\<rparr>))\<rparr>]" for t
    by (rule updateIP_writes [OF ex_refusing_ListZones ex_refusing_match ex_refusing_facts])
  show ?thesis
    by (simp add: run)
qed

subsection \<open>C4: only the content changes\<close>

text \<open>
  Claim C4. When \<open>updateIP\<close> updates the one matching record \<open>rec\<close>, the record it
  passes to \<open>UpdateDNSRecord\<close>, whose JSON is the body of the request, has the text of the
  address as its content and every other field (ID, Type, Name, Proxiable, Proxied, TTL,
  Locked, ZoneID, ZoneName, CreatedOn, ModifiedOn) as \<open>ListDNSRecords\<close> has returned it.
\<close>

theorem updateIP_changes_content_only:
  assumes zs: "ListZones L W (NewClient key email) domain [] (- 1) (- 1) [] [] [] t = (Inr zones, t1)"
    and ms: "updateIP_zones L W (NewClient key email) verbose hostname ''A'' zones [] t1 = (Inr [rec], t2)"
    and differs: "Content rec \<noteq> IP_String L ip"
    and marshal: "Marshal_DNSRecord L (rec\<lparr>Content := IP_String L ip\<rparr>) = Inr payload"
    and newreq: "http_NewRequest L ''PUT'' (UpdateDNSRecord_url rec) = None"
  shows "\<exists>sent.
          fst (updateIP L W key email domain hostname verbose ip t) =
            map_option (\<lambda>err. ''Unable to update DNS record: '' @ err)
              (fst (UpdateDNSRecord L W (NewClient key email) sent
                     (if verbose
                      then t2 @ [Log (''Updating record to: '' @ Sprintf_DNSRecord sent)]
                      else t2))) \<and>
          Marshal_DNSRecord L sent = Inr payload \<and>
          filter mutating (snd (updateIP L W key email domain hostname verbose ip t)) =
            filter mutating t @
            [HTTPDo \<lparr>req_Method = ''PUT'', req_URL = UpdateDNSRecord_url sent,
                     req_Header = [(''X-Auth-Email'', email), (''X-Auth-Key'', key),
                                   (''Content-Type'', ''application/json'')],
                     req_Body = Some payload\<rparr>] \<and>
          Content sent = IP_String L ip \<and>
          ID sent = ID rec \<and> Type sent = Type rec \<and> Name sent = Name rec \<and>
          Proxiable sent = Proxiable rec \<and> Proxied sent = Proxied rec \<and> TTL sent = TTL rec \<and>
          Locked sent = Locked rec \<and> ZoneID sent = ZoneID rec \<and> ZoneName sent = ZoneName rec \<and>
          CreatedOn sent = CreatedOn rec \<and> ModifiedOn sent = ModifiedOn rec"
proof -
  let ?sent = "rec\<lparr>Content := IP_String L ip\<rparr>"
  let ?c = "NewClient key email"
  let ?t3 = "if verbose then t2 @ [Log (''Updating record to: '' @ Sprintf_DNSRecord ?sent)] else t2"
  have run: "updateIP L W key email domain hostname verbose ip t =
               updateIP_record L W ?c hostname verbose ip rec t2"
    and t2: "filter mutating t2 = filter mutating t"
    using updateIP_unique_match [OF zs ms] by simp_all
  have "fst (updateIP_record L W ?c hostname verbose ip rec t2) =
          map_option (\<lambda>err. ''Unable to update DNS record: '' @ err)
            (fst (UpdateDNSRecord L W ?c ?sent ?t3))"
    using differs by (simp add: updateIP_record_def Let_def split: prod.splits option.splits)
  moreover have "filter mutating (snd (updateIP_record L W ?c hostname verbose ip rec t2)) =
      filter mutating t @
      [HTTPDo \<lparr>req_Method = ''PUT'', req_URL = UpdateDNSRecord_url ?sent,
               req_Header = [(''X-Auth-Email'', email), (''X-Auth-Key'', key),
                             (''Content-Type'', ''application/json'')],
               req_Body = Some payload\<rparr>]"
    using updateIP_record_sends [OF differs marshal newreq, where c = ?c and hostname = hostname
        and verbose = verbose and t = t2 and W = W] t2
    by (simp add: NewClient_def)
  ultimately show ?thesis
    using run marshal by (intro exI [of _ ?sent]) simp
qed

theorem updateIP_changes_content_only_witness:
  "\<exists>sent. filter mutating (snd (updateIP (ex_lib [ex_record]) (ex_world []) ''secret''
              ''me@example.com'' ''example.com'' ''host.example.com'' False ex_v4 [])) =
            [HTTPDo \<lparr>req_Method = ''PUT'', req_URL = UpdateDNSRecord_url sent,
                     req_Header = [(''X-Auth-Email'', ''me@example.com''),
                                   (''X-Auth-Key'', ''secret''),
                                   (''Content-Type'', ''application/json'')],
                     req_Body = Some (Sprintf_DNSRecord sent)\<rparr>] \<and>
          Content sent = ''203.0.113.5'' \<and> ID sent = ''r1'' \<and> TTL sent = 120 \<and>
          ZoneID sent = ''z1''"
proof -
  have e: "\<not> list_ex mutating []"
    by simp
  have d: "Content ex_record \<noteq> IP_String (ex_lib [ex_record]) ex_v4"
    by (simp add: ex_IP_String ex_record_fields)
  obtain sent where
    "filter mutating (snd (updateIP (ex_lib [ex_record]) (ex_world []) ''secret''
              ''me@example.com'' ''example.com'' ''host.example.com'' False ex_v4 [])) =
       filter mutating [] @
       [HTTPDo \<lparr>req_Method = ''PUT'', req_URL = UpdateDNSRecord_url sent,
                     req_Header = [(''X-Auth-Email'', ''me@example.com''),
                                   (''X-Auth-Key'', ''secret''),
                                   (''Content-Type'', ''application/json'')],
                     req_Body = Some (Sprintf_DNSRecord
                        (ex_record\<lparr>Content := IP_String (ex_lib [ex_record]) ex_v4\<rparr>))\<rparr>]"
    "Marshal_DNSRecord (ex_lib [ex_record]) sent =
       Inr (Sprintf_DNSRecord (ex_record\<lparr>Content := IP_String (ex_lib [ex_record]) ex_v4\<rparr>))"
    "Content sent = IP_String (ex_lib [ex_record]) ex_v4" "ID sent = ID ex_record"
    "TTL sent = TTL ex_record" "ZoneID sent = ZoneID ex_record"
    using updateIP_changes_content_only
      [OF ex_ListZones ex_match_before [OF e] d ex_Marshal ex_NewRequest]
    by blast
  then show ?thesis
    by (intro exI [of _ sent]) (simp add: ex_IP_String ex_Marshal ex_record_def)
qed

subsection \<open>C5: the name server of the resolver configuration\<close>

text \<open>
  Claim C5. \<open>getNameserver\<close> is to return the second token of the first line that
  consists of two tokens separated by white space, the first being \<^verbatim>\<open>nameserver\<close>.
  The code splits a line at single spaces only. A file whose one line separates the two
  tokens by a tab yields the error "No resolver found", and when such a line is followed
  by a line with a space, the name server of the second line is returned, not the first.
\<close>

theorem getNameserver_tab_separated:
  "getNameserver
     (W\<lparr>ScanFile := \<lambda>t path. Inr ([''nameserver'' @ [CHR 0x09] @ ''8.8.8.8''], None)\<rparr>) t
     = Inl ''No resolver found'' \<and>
   getNameserver
     (W\<lparr>ScanFile := \<lambda>t path.
           Inr ([''nameserver'' @ [CHR 0x09] @ ''1.1.1.1'', ''nameserver 8.8.8.8''], None)\<rparr>) t
     = Inr ''8.8.8.8''"
  unfolding getNameserver_def using scan_tab_line scan_tab_then_space by simp

subsection \<open>C6: the answer of a DNS lookup\<close>

text \<open>
  Claim C6. For every response \<open>dnsLookupHost\<close> receives: a response code other than
  success gives the error that carries the name of the code; on success the result is the
  addresses of the records of the answer section that are of type A, in the order of the
  answer section, the other records skipped, nothing sorted and nothing removed; an empty
  answer section gives the empty list, not an error.
\<close>

theorem dnsLookupHost_result:
  assumes "getNameserver W t = Inr nameserver"
    and "dns_Exchange W t \<lparr>q_Id = dns_Id W t, q_RecursionDesired = True, q_Name = Fqdn L host,
           q_Qtype = TypeA, q_Qclass = ClassINET\<rparr> (nameserver @ '':53'') = Inr resp"
  shows "fst (dnsLookupHost L W host t) =
           (if Rcode resp \<noteq> RcodeSuccess
            then Inl (''Lookup problem: '' @ RcodeToString L (Rcode resp))
            else Inr (map the_A (filter is_A (Answer resp)))) \<and>
         (Rcode resp = RcodeSuccess \<and> Answer resp = [] \<longrightarrow>
            fst (dnsLookupHost L W host t) = Inr [])"
  using assms by (simp add: dnsLookupHost_def dnsLookupHost_answers_eq)

theorem dnsLookupHost_result_witness:
  "fst (dnsLookupHost (ex_lib []) (ex_world [CNAME ''h.example.com'', A ex_current, AAAA ex_v6, A ex_v4, A ex_current])
         ''host.example.com'' []) = Inr [ex_current, ex_v4, ex_current] \<and>
   fst (dnsLookupHost (ex_lib []) (ex_world []) ''host.example.com'' []) = Inr []"
  using dnsLookupHost_result [of "ex_world [CNAME ''h.example.com'', A ex_current, AAAA ex_v6, A ex_v4, A ex_current]"
      "[]" "''192.0.2.53''" "ex_lib []" "''host.example.com''"
      "\<lparr>Rcode = 0, Answer = [CNAME ''h.example.com'', A ex_current, AAAA ex_v6, A ex_v4, A ex_current]\<rparr>"]
    dnsLookupHost_result [of "ex_world []" "[]" "''192.0.2.53''" "ex_lib []" "''host.example.com''"
      "\<lparr>Rcode = 0, Answer = []\<rparr>"]
    ex_getNameserver
  by (simp add: ex_world_def RcodeSuccess_def)

subsection \<open>C7: an address given on the command line\<close>

text \<open>
  Claim C7. When an address is given with the flag \<^verbatim>\<open>-ip\<close>, the run never looks the
  address up at icanhazip.com, and the rest of \<open>main\<close> works with exactly the address
  parsed from the flag. The lookup is made only without the flag, and then it is the first
  thing the run does after reading the key.
\<close>

theorem main_explicit_ip:
  "(flag_ip fl \<noteq> [] \<longrightarrow>
      (\<exists>es. snd (main L W fl t) = t @ es \<and> IcanhazipLookup \<notin> set es) \<and>
      (\<forall>args key. getArgs L fl = Inr args \<and> getKeyFromFile W (Args_KeyFile args) t = Inr key \<longrightarrow>
         (\<exists>ip. ParseIP L (flag_ip fl) = Some ip \<and>
               main L W fl t = main_update L W args key ip t))) \<and>
   (flag_ip fl = [] \<longrightarrow>
      (\<forall>args key. getArgs L fl = Inr args \<and> getKeyFromFile W (Args_KeyFile args) t = Inr key \<longrightarrow>
         (\<exists>es. snd (main L W fl t) = t @ IcanhazipLookup # es \<and> IcanhazipLookup \<notin> set es)))"
proof (intro conjI impI allI)
  assume ip: "flag_ip fl \<noteq> []"
  show "\<exists>es. snd (main L W fl t) = t @ es \<and> IcanhazipLookup \<notin> set es"
  proof (cases "getArgs L fl")
    case (Inl err)
    then have "snd (main L W fl t) = t @ [PrintDefaults]"
      by (simp add: main_def)
    then show ?thesis by simp
  next
    case (Inr args)
    then obtain a where a: "Args_IP args = Some a"
      using getArgs_IP [OF Inr] ip by auto
    show ?thesis
    proof (cases "getKeyFromFile W (Args_KeyFile args) t")
      case (Inl err)
      then have "snd (main L W fl t) = t @ [Log (''Unable to read key: '' @ err)]"
        using Inr by (simp add: main_def Fatal_def)
      then show ?thesis by simp
    next
      case key: (Inr key)
      have "main L W fl t = main_update L W args key a t"
        using Inr key a by (simp add: main_def)
      then show ?thesis
        using main_update_appends [of L W args key a t] by simp
    qed
  qed
next
  fix args key
  assume ip: "flag_ip fl \<noteq> []"
    and ok: "getArgs L fl = Inr args \<and> getKeyFromFile W (Args_KeyFile args) t = Inr key"
  then obtain a where a: "Args_IP args = Some a" "ParseIP L (flag_ip fl) = Some a"
    using getArgs_IP [of L fl args] by auto
  then have "main L W fl t = main_update L W args key a t"
    using ok by (simp add: main_def)
  then show "\<exists>ip. ParseIP L (flag_ip fl) = Some ip \<and> main L W fl t = main_update L W args key ip t"
    using a by blast
next
  fix args key
  assume ip: "flag_ip fl = []"
    and ok: "getArgs L fl = Inr args \<and> getKeyFromFile W (Args_KeyFile args) t = Inr key"
  then have a: "Args_IP args = None"
    using getArgs_IP [of L fl args] by simp
  show "\<exists>es. snd (main L W fl t) = t @ IcanhazipLookup # es \<and> IcanhazipLookup \<notin> set es"
  proof (cases "icanhazip_Lookup W t")
    case (Inl err)
    then have "snd (main L W fl t) =
        t @ IcanhazipLookup # [Log (''Unable to look up IP from icanhazip.com: '' @ err)]"
      using ok a by (simp add: main_def Fatal_def)
    then show ?thesis by simp
  next
    case (Inr myIP)
    define m where "m = (if Args_Verbose args
        then [Log (''Found current IP is '' @ IP_String L myIP)] else [])"
    let ?t' = "t @ IcanhazipLookup # m"
    have run: "main L W fl t = main_update L W args key myIP ?t'"
      using ok a Inr by (simp add: main_def m_def)
    obtain es where es: "snd (main_update L W args key myIP ?t') = ?t' @ es"
      "IcanhazipLookup \<notin> set es"
      using main_update_appends by blast
    have "snd (main L W fl t) = t @ IcanhazipLookup # (m @ es)"
      using run es by simp
    moreover have "IcanhazipLookup \<notin> set (m @ es)"
      using es by (simp add: m_def)
    ultimately show ?thesis by blast
  qed
qed

theorem main_explicit_ip_witness:
  "main (ex_lib [ex_record]) (ex_world []) (ex_flags ''203.0.113.5'' False) [] =
     main_update (ex_lib [ex_record]) (ex_world []) (ex_args False) ''secret'' ex_v4 [] \<and>
   IcanhazipLookup \<notin>
     set (snd (main (ex_lib [ex_record]) (ex_world []) (ex_flags ''203.0.113.5'' False) [])) \<and>
   (\<exists>es. snd (main (ex_lib [ex_record]) (ex_world []) (ex_flags [] False) []) =
           IcanhazipLookup # es)"
proof -
  have f: "flag_ip (ex_flags ''203.0.113.5'' False) \<noteq> []"
    by (simp add: ex_flags_def)
  have k: "getKeyFromFile (ex_world []) (Args_KeyFile (ex_args False)) [] = Inr ''secret''"
    by (rule ex_getKeyFromFile)
  have p: "ParseIP (ex_lib [ex_record]) (flag_ip (ex_flags ''203.0.113.5'' False)) = Some ex_v4"
    by (simp add: ex_lib_def ex_flags_def)
  note given = main_explicit_ip
    [of "ex_flags ''203.0.113.5'' False" "ex_lib [ex_record]" "ex_world []" "[]"]
  note absent = main_explicit_ip
    [of "ex_flags [] False" "ex_lib [ex_record]" "ex_world []" "[]",
     THEN conjunct2, rule_format]
  have "main (ex_lib [ex_record]) (ex_world []) (ex_flags ''203.0.113.5'' False) [] =
     main_update (ex_lib [ex_record]) (ex_world []) (ex_args False) ''secret'' ex_v4 []"
    using given f k p ex_getArgs [of "[ex_record]" False] by auto
  moreover have "IcanhazipLookup \<notin>
      set (snd (main (ex_lib [ex_record]) (ex_world []) (ex_flags ''203.0.113.5'' False) []))"
    using given f by auto
  moreover have "\<exists>es. snd (main (ex_lib [ex_record]) (ex_world []) (ex_flags [] False) []) =
      [] @ IcanhazipLookup # es \<and> IcanhazipLookup \<notin> set es"
  proof (rule absent)
    show "flag_ip (ex_flags [] False) = []"
      by (simp add: ex_flags_def)
    show "getArgs (ex_lib [ex_record]) (ex_flags [] False) =
            Inr ((ex_args False)\<lparr>Args_IP := None\<rparr>) \<and>
          getKeyFromFile (ex_world []) (Args_KeyFile ((ex_args False)\<lparr>Args_IP := None\<rparr>)) [] =
            Inr ''secret''"
      by (simp add: getArgs_def ex_flags_def ex_args_def ex_getKeyFromFile)
  qed
  ultimately show ?thesis by auto
qed

subsection \<open>C8: the query of ListZones\<close>

text \<open>
  Claim C8. For all parameters of \<open>ListZones\<close>, the query string holds the parameter
  \<^verbatim>\<open>status\<close> with the value \<^verbatim>\<open>active\<close> when the status is blank and with the
  given status otherwise; \<^verbatim>\<open>name\<close>, \<^verbatim>\<open>order\<close>, \<^verbatim>\<open>direction\<close> and
  \<^verbatim>\<open>match\<close> exactly when they are not blank; \<^verbatim>\<open>page\<close> and \<^verbatim>\<open>per_page\<close>
  exactly when they are positive, in decimal; each value as it was given. \<open>pairs\<close> below
  is what \<^verbatim>\<open>Encode\<close> writes, in its order, and the query string is its encoding.
\<close>

theorem ListZones_query:
  "let pairs =
         ((if direction = [] then [] else [(''direction'', direction)]) @
          (if match = [] then [] else [(''match'', match)]) @
          (if name = [] then [] else [(''name'', name)]) @
          (if order = [] then [] else [(''order'', order)]) @
          (if page > 0 then [(''page'', Sprintf_d page)] else []) @
          (if perPage > 0 then [(''per_page'', Sprintf_d perPage)] else [])) @
         [(''status'', if status = [] then ''active'' else status)];
       url = ListZones_url name status page perPage order direction match
   in Values_pairs (ListZones_values name status page perPage order direction match) = pairs \<and>
      url = endpoint @ ''zones?'' @
            Join (map (\<lambda>(k, v). QueryEscape k @ ''='' @ QueryEscape v) pairs) ''&'' \<and>
      (status = [] \<longrightarrow> suffix ''status=active'' url) \<and>
      (http_NewRequest L ''GET'' url = None \<longrightarrow>
         snd (ListZones L W c name status page perPage order direction match t) =
           t @ [HTTPDo \<lparr>req_Method = ''GET'', req_URL = url,
                         req_Header = [(''X-Auth-Email'', Email c), (''X-Auth-Key'', Key c),
                                       (''Content-Type'', ''application/json'')],
                         req_Body = None\<rparr>])"
proof -
  define front where "front =
         (if direction = [] then [] else [(''direction'', direction)]) @
         (if match = [] then [] else [(''match'', match)]) @
         (if name = [] then [] else [(''name'', name)]) @
         (if order = [] then [] else [(''order'', order)]) @
         (if page > 0 then [(''page'', Sprintf_d page)] else []) @
         (if perPage > 0 then [(''per_page'', Sprintf_d perPage)] else [])"
  define url where "url = ListZones_url name status page perPage order direction match"
  define enc where "enc = (\<lambda>(k, v). QueryEscape k @ ''='' @ QueryEscape v)"
  have pairs: "Values_pairs (ListZones_values name status page perPage order direction match) =
      front @ [(''status'', if status = [] then ''active'' else status)]"
    unfolding front_def by (rule ListZones_pairs)
  have url: "url = endpoint @ ''zones?'' @
      Join (map enc (front @ [(''status'', if status = [] then ''active'' else status)])) ''&''"
    unfolding url_def enc_def ListZones_url_def Values_Encode_def pairs ..
  have active: "suffix ''status=active'' url" if "status = []"
  proof -
    have "url = (endpoint @ ''zones?'') @ Join (map enc front @ [''status=active'']) ''&''"
      unfolding url enc_def using that encode_status_active [of front] by simp
    then show ?thesis
      using suffix_Join_last [of "''status=active''" "endpoint @ ''zones?''" "map enc front" "''&''"]
      by simp
  qed
  have sent: "snd (ListZones L W c name status page perPage order direction match t) =
           t @ [HTTPDo \<lparr>req_Method = ''GET'', req_URL = url,
                         req_Header = [(''X-Auth-Email'', Email c), (''X-Auth-Key'', Key c),
                                       (''Content-Type'', ''application/json'')],
                         req_Body = None\<rparr>]"
    if "http_NewRequest L ''GET'' url = None"
    using that unfolding url_def by (simp add: ListZones_events request_events)
  show ?thesis
    unfolding Let_def
    using pairs url active sent unfolding front_def url_def enc_def by blast
qed

theorem ListZones_query_witness:
  "ListZones_url ''example.com'' [] (- 1) (- 1) [] [] [] =
     ''https://api.cloudflare.com/client/v4/zones?name=example.com&status=active'' \<and>
   ListZones_url ''a b'' ''pending'' 2 50 ''name'' ''desc'' ''any'' =
     ''https://api.cloudflare.com/client/v4/zones?direction=desc&match=any&name=a+b&order=name&page=2&per_page=50&status=pending''"
proof -
  have "ListZones_url ''example.com'' [] (- 1) (- 1) [] [] [] =
     ''https://api.cloudflare.com/client/v4/zones?name=example.com&status=active''"
    using ListZones_query [of "[]" "[]" "''example.com''" "[]" "- 1" "- 1" "[]"]
    by (simp add: Let_def endpoint_def shouldEscape_def)
  moreover have "ListZones_url ''a b'' ''pending'' 2 50 ''name'' ''desc'' ''any'' =
     ''https://api.cloudflare.com/client/v4/zones?direction=desc&match=any&name=a+b&order=name&page=2&per_page=50&status=pending''"
    using ListZones_query [of "''desc''" "''any''" "''a b''" "''name''" 2 50 "''pending''"]
    by (simp add: Let_def endpoint_def shouldEscape_def Sprintf_d_examples)
  ultimately show ?thesis ..
qed

subsection \<open>C9: no validation in UpdateDNSRecord\<close>

text \<open>
  Claim C9. \<open>ListDNSRecords\<close> and \<open>PurgeAllFiles\<close> return an error and send nothing when
  the zone ID is empty. \<open>UpdateDNSRecord\<close> checks neither the zone ID nor the ID of the
  record: for every record whose JSON can be built it sends the \<^verbatim>\<open>PUT\<close> request to the
  URL made of the two, also when both are empty.
\<close>

theorem UpdateDNSRecord_no_validation:
  "ListDNSRecords L W c [] recordType name content page perPage order direction match t =
     (Inl ''you must provide a zone ID. Use ListZones() to find one'', t) \<and>
   PurgeAllFiles L W c [] t = (Some ''you must provide a zone ID'', t) \<and>
   (Marshal_DNSRecord L rec = Inr payload \<and>
    http_NewRequest L ''PUT'' (UpdateDNSRecord_url rec) = None \<longrightarrow>
      snd (UpdateDNSRecord L W c rec t) =
        t @ [HTTPDo \<lparr>req_Method = ''PUT'', req_URL = UpdateDNSRecord_url rec,
                      req_Header = [(''X-Auth-Email'', Email c), (''X-Auth-Key'', Key c),
                                    (''Content-Type'', ''application/json'')],
                      req_Body = Some payload\<rparr>]) \<and>
   (ZoneID rec = [] \<and> ID rec = [] \<longrightarrow>
      UpdateDNSRecord_url rec = ''https://api.cloudflare.com/client/v4/zones//dns_records/'')"
  by (simp add: ListDNSRecords_def PurgeAllFiles_def UpdateDNSRecord_events request_events
      UpdateDNSRecord_url_def endpoint_def)

theorem UpdateDNSRecord_no_validation_witness:
  "snd (UpdateDNSRecord (ex_lib []) (ex_world []) (NewClient ''secret'' ''me@example.com'')
         (ex_record\<lparr>ID := [], ZoneID := []\<rparr>) []) =
     [HTTPDo \<lparr>req_Method = ''PUT'',
              req_URL = ''https://api.cloudflare.com/client/v4/zones//dns_records/'',
              req_Header = [(''X-Auth-Email'', ''me@example.com''), (''X-Auth-Key'', ''secret''),
                            (''Content-Type'', ''application/json'')],
              req_Body = Some (Sprintf_DNSRecord (ex_record\<lparr>ID := [], ZoneID := []\<rparr>))\<rparr>]"
  using UpdateDNSRecord_no_validation [of "ex_lib []" "ex_world []"
      "NewClient ''secret'' ''me@example.com''" "[]" "[]" "[]" 0 0 "[]" "[]" "[]" "[]"
      "ex_record\<lparr>ID := [], ZoneID := []\<rparr>" "Sprintf_DNSRecord (ex_record\<lparr>ID := [], ZoneID := []\<rparr>)"]
  by (simp add: ex_Marshal ex_NewRequest NewClient_def)

subsection \<open>C10: any address that parses is accepted\<close>

text \<open>
  Claim C10. \<open>getArgs\<close> accepts for the flag \<^verbatim>\<open>-ip\<close> every string that
  \<^verbatim>\<open>net.ParseIP\<close> parses, whatever the address, IPv4 or IPv6, and \<open>main\<close> goes on
  with that address. A run of \<open>main\<close> with such a flag, whether it updates at once or
  after the DNS lookup has given one other address, sends as its one request that changes
  something the one matching record, whose type is \<^verbatim>\<open>A\<close>, with the text of that address
  as its content; so does \<open>updateIP\<close> called with any address. A string that is not
  empty and does not parse is refused: \<open>main\<close> prints the usage and exits with status 1,
  with nothing sent over the network.
\<close>

theorem getArgs_accepts_any_IP:
  "(flag_email fl \<noteq> [] \<and> flag_domain fl \<noteq> [] \<and> flag_hostname fl \<noteq> [] \<and>
    flag_key_file fl \<noteq> [] \<and> flag_ip fl \<noteq> [] \<and> ParseIP L (flag_ip fl) = Some ip \<longrightarrow>
      (\<exists>args. getArgs L fl = Inr args \<and> Args_IP args = Some ip \<and>
         (\<forall>key. getKeyFromFile W (Args_KeyFile args) t = Inr key \<longrightarrow>
            main L W fl t = main_update L W args key ip t))) \<and>
   (\<forall>key u zones u1 rec u2 payload.
      flag_email fl \<noteq> [] \<and> flag_domain fl \<noteq> [] \<and> flag_hostname fl \<noteq> [] \<and>
      flag_key_file fl \<noteq> [] \<and> flag_ip fl \<noteq> [] \<and> ParseIP L (flag_ip fl) = Some ip \<and>
      getKeyFromFile W (flag_key_file fl) t = Inr key \<and>
      (\<not> flag_only_if_different fl \<and> u = t \<or>
       flag_only_if_different fl \<and>
       (\<exists>cur d1. dnsLookupHost L W (flag_hostname fl) t = (Inr [cur], d1) \<and>
                 \<not> IP_Equal cur ip \<and>
                 u = (if flag_verbose fl
                      then d1 @ [Log (''Host'' @ [CHR 0x27] @ ''s current IP is '' @
                                      IP_String L cur)]
                      else d1))) \<and>
      ListZones L W (NewClient key (flag_email fl)) (flag_domain fl) [] (- 1) (- 1) [] [] [] u =
        (Inr zones, u1) \<and>
      updateIP_zones L W (NewClient key (flag_email fl)) (flag_verbose fl) (flag_hostname fl)
        ''A'' zones [] u1 = (Inr [rec], u2) \<and>
      Content rec \<noteq> IP_String L ip \<and>
      Marshal_DNSRecord L (rec\<lparr>Content := IP_String L ip\<rparr>) = Inr payload \<and>
      http_NewRequest L ''PUT'' (UpdateDNSRecord_url rec) = None \<longrightarrow>
        Type rec = ''A'' \<and>
        filter mutating (snd (main L W fl t)) =
          filter mutating t @
          [HTTPDo \<lparr>req_Method = ''PUT'', req_URL = UpdateDNSRecord_url rec,
                   req_Header = [(''X-Auth-Email'', flag_email fl), (''X-Auth-Key'', key),
                                 (''Content-Type'', ''application/json'')],
                   req_Body = Some payload\<rparr>]) \<and>
   (\<forall>key email domain hostname verbose u zones u1 rec u2 payload.
      ListZones L W (NewClient key email) domain [] (- 1) (- 1) [] [] [] u = (Inr zones, u1) \<and>
      updateIP_zones L W (NewClient key email) verbose hostname ''A'' zones [] u1 =
        (Inr [rec], u2) \<and>
      Content rec \<noteq> IP_String L ip \<and>
      Marshal_DNSRecord L (rec\<lparr>Content := IP_String L ip\<rparr>) = Inr payload \<and>
      http_NewRequest L ''PUT'' (UpdateDNSRecord_url rec) = None \<longrightarrow>
        Type rec = ''A'' \<and>
        filter mutating (snd (updateIP L W key email domain hostname verbose ip u)) =
          filter mutating u @
          [HTTPDo \<lparr>req_Method = ''PUT'', req_URL = UpdateDNSRecord_url rec,
                   req_Header = [(''X-Auth-Email'', email), (''X-Auth-Key'', key),
                                 (''Content-Type'', ''application/json'')],
                   req_Body = Some payload\<rparr>]) \<and>
   (flag_ip fl \<noteq> [] \<and> ParseIP L (flag_ip fl) = None \<longrightarrow>
      (\<exists>err. getArgs L fl = Inl err) \<and> main L W fl t = (1, t @ [PrintDefaults]) \<and>
      filter network (snd (main L W fl t)) = filter network t)"
proof (intro conjI impI allI)
  assume a: "flag_email fl \<noteq> [] \<and> flag_domain fl \<noteq> [] \<and> flag_hostname fl \<noteq> [] \<and>
    flag_key_file fl \<noteq> [] \<and> flag_ip fl \<noteq> [] \<and> ParseIP L (flag_ip fl) = Some ip"
  let ?args = "\<lparr>Args_Email = flag_email fl, Args_Domain = flag_domain fl,
               Args_Hostname = flag_hostname fl, Args_KeyFile = flag_key_file fl,
               Args_IP = Some ip, Args_OnlyIfDifferent = flag_only_if_different fl,
               Args_Verbose = flag_verbose fl\<rparr>"
  have g: "getArgs L fl = Inr ?args"
    using a by (simp add: getArgs_def)
  have "\<forall>key. getKeyFromFile W (Args_KeyFile ?args) t = Inr key \<longrightarrow>
            main L W fl t = main_update L W ?args key ip t"
    using g by (simp add: main_def)
  then show "\<exists>args. getArgs L fl = Inr args \<and> Args_IP args = Some ip \<and>
         (\<forall>key. getKeyFromFile W (Args_KeyFile args) t = Inr key \<longrightarrow>
            main L W fl t = main_update L W args key ip t)"
    using g by (intro exI [of _ ?args]) simp
next
  fix key u zones u1 rec u2 payload
  assume h: "flag_email fl \<noteq> [] \<and> flag_domain fl \<noteq> [] \<and> flag_hostname fl \<noteq> [] \<and>
      flag_key_file fl \<noteq> [] \<and> flag_ip fl \<noteq> [] \<and> ParseIP L (flag_ip fl) = Some ip \<and>
      getKeyFromFile W (flag_key_file fl) t = Inr key \<and>
      (\<not> flag_only_if_different fl \<and> u = t \<or>
       flag_only_if_different fl \<and>
       (\<exists>cur d1. dnsLookupHost L W (flag_hostname fl) t = (Inr [cur], d1) \<and>
                 \<not> IP_Equal cur ip \<and>
                 u = (if flag_verbose fl
                      then d1 @ [Log (''Host'' @ [CHR 0x27] @ ''s current IP is '' @
                                      IP_String L cur)]
                      else d1))) \<and>
      ListZones L W (NewClient key (flag_email fl)) (flag_domain fl) [] (- 1) (- 1) [] [] [] u =
        (Inr zones, u1) \<and>
      updateIP_zones L W (NewClient key (flag_email fl)) (flag_verbose fl) (flag_hostname fl)
        ''A'' zones [] u1 = (Inr [rec], u2) \<and>
      Content rec \<noteq> IP_String L ip \<and>
      Marshal_DNSRecord L (rec\<lparr>Content := IP_String L ip\<rparr>) = Inr payload \<and>
      http_NewRequest L ''PUT'' (UpdateDNSRecord_url rec) = None"
  let ?args = "\<lparr>Args_Email = flag_email fl, Args_Domain = flag_domain fl,
               Args_Hostname = flag_hostname fl, Args_KeyFile = flag_key_file fl,
               Args_IP = Some ip, Args_OnlyIfDifferent = flag_only_if_different fl,
               Args_Verbose = flag_verbose fl\<rparr>"
  let ?put = "HTTPDo \<lparr>req_Method = ''PUT'', req_URL = UpdateDNSRecord_url rec,
                   req_Header = [(''X-Auth-Email'', flag_email fl), (''X-Auth-Key'', key),
                                 (''Content-Type'', ''application/json'')],
                   req_Body = Some payload\<rparr>"
  from h have g: "getArgs L fl = Inr ?args"
    by (simp add: getArgs_def)
  from h have k: "getKeyFromFile W (flag_key_file fl) t = Inr key"
    by simp
  have run: "main L W fl t = main_update L W ?args key ip t"
    using g k by (simp add: main_def)
  from h have zs: "ListZones L W (NewClient key (flag_email fl)) (flag_domain fl) []
      (- 1) (- 1) [] [] [] u = (Inr zones, u1)"
    and ms: "updateIP_zones L W (NewClient key (flag_email fl)) (flag_verbose fl)
      (flag_hostname fl) ''A'' zones [] u1 = (Inr [rec], u2)"
    and differs: "Content rec \<noteq> IP_String L ip"
    and marshal: "Marshal_DNSRecord L (rec\<lparr>Content := IP_String L ip\<rparr>) = Inr payload"
    and newreq: "http_NewRequest L ''PUT'' (UpdateDNSRecord_url rec) = None"
    by simp_all
  show "Type rec = ''A''"
    using updateIP_unique_match(3) [OF zs ms] by simp
  have w: "filter mutating (snd (updateIP L W key (flag_email fl) (flag_domain fl)
      (flag_hostname fl) (flag_verbose fl) ip u)) = filter mutating u @ [?put]"
    by (rule updateIP_writes [OF zs ms differs marshal newreq])
  from h consider
    (direct) "\<not> flag_only_if_different fl" "u = t"
    | (changed) cur d1 where "flag_only_if_different fl"
        "dnsLookupHost L W (flag_hostname fl) t = (Inr [cur], d1)" "\<not> IP_Equal cur ip"
        "u = (if flag_verbose fl
              then d1 @ [Log (''Host'' @ [CHR 0x27] @ ''s current IP is '' @ IP_String L cur)]
              else d1)"
    by blast
  then show "filter mutating (snd (main L W fl t)) = filter mutating t @ [?put]"
  proof cases
    case direct
    then show ?thesis
      using run w main_update_direct [of ?args L W key ip t] by simp
  next
    case changed
    have "filter mutating d1 = filter mutating t"
      using dnsLookupHost_mutating [of L W "flag_hostname fl" t] changed(2) by simp
    then have "filter mutating u = filter mutating t"
      using changed(4) by simp
    moreover have "filter mutating (snd (main_update L W ?args key ip t)) =
        filter mutating (snd (updateIP L W key (flag_email fl) (flag_domain fl)
          (flag_hostname fl) (flag_verbose fl) ip u))"
      using main_update_changed [of ?args L W t cur d1 ip key] changed by simp
    ultimately show ?thesis
      using run w by simp
  qed
next
  fix key email domain hostname verbose u zones u1 rec u2 payload
  assume h: "ListZones L W (NewClient key email) domain [] (- 1) (- 1) [] [] [] u = (Inr zones, u1) \<and>
      updateIP_zones L W (NewClient key email) verbose hostname ''A'' zones [] u1 =
        (Inr [rec], u2) \<and>
      Content rec \<noteq> IP_String L ip \<and>
      Marshal_DNSRecord L (rec\<lparr>Content := IP_String L ip\<rparr>) = Inr payload \<and>
      http_NewRequest L ''PUT'' (UpdateDNSRecord_url rec) = None"
  then have zs: "ListZones L W (NewClient key email) domain [] (- 1) (- 1) [] [] [] u = (Inr zones, u1)"
    and ms: "updateIP_zones L W (NewClient key email) verbose hostname ''A'' zones [] u1 = (Inr [rec], u2)"
    and differs: "Content rec \<noteq> IP_String L ip"
    and marshal: "Marshal_DNSRecord L (rec\<lparr>Content := IP_String L ip\<rparr>) = Inr payload"
    and newreq: "http_NewRequest L ''PUT'' (UpdateDNSRecord_url rec) = None"
    by simp_all
  show "Type rec = ''A''"
    using updateIP_unique_match(3) [OF zs ms] by simp
  show "filter mutating (snd (updateIP L W key email domain hostname verbose ip u)) =
          filter mutating u @
          [HTTPDo \<lparr>req_Method = ''PUT'', req_URL = UpdateDNSRecord_url rec,
                   req_Header = [(''X-Auth-Email'', email), (''X-Auth-Key'', key),
                                 (''Content-Type'', ''application/json'')],
                   req_Body = Some payload\<rparr>]"
    by (rule updateIP_writes [OF zs ms differs marshal newreq])
next
  assume a: "flag_ip fl \<noteq> [] \<and> ParseIP L (flag_ip fl) = None"
  then have "\<exists>err. getArgs L fl = Inl err"
    by (simp add: getArgs_def)
  then obtain err where e: "getArgs L fl = Inl err"
    by blast
  then show "\<exists>err. getArgs L fl = Inl err"
    by blast
  show "main L W fl t = (1, t @ [PrintDefaults])"
    using e by (simp add: main_def)
  then show "filter network (snd (main L W fl t)) = filter network t"
    by simp
qed

theorem getArgs_accepts_any_IP_witness:
  "(\<exists>args. getArgs (ex_lib [ex_record]) (ex_flags ''2001:db8::1'' False) = Inr args \<and>
           Args_IP args = Some ex_v6) \<and>
   Type ex_record = ''A'' \<and>
   filter mutating (snd (updateIP (ex_lib [ex_record]) (ex_world []) ''secret''
       ''me@example.com'' ''example.com'' ''host.example.com'' False ex_v6 [])) =
     [HTTPDo \<lparr>req_Method = ''PUT'', req_URL = UpdateDNSRecord_url ex_record,
              req_Header = [(''X-Auth-Email'', ''me@example.com''), (''X-Auth-Key'', ''secret''),
                            (''Content-Type'', ''application/json'')],
              req_Body = Some (Sprintf_DNSRecord (ex_record\<lparr>Content := ''2001:db8::1''\<rparr>))\<rparr>] \<and>
   main (ex_lib [ex_record]) (ex_world []) (ex_flags ''not an address'' False) [] =
     (1, [PrintDefaults]) \<and>
   filter mutating (snd (main (ex_lib [ex_record]) (ex_world [])
       (ex_flags ''2001:db8::1'' False) [])) =
     [HTTPDo \<lparr>req_Method = ''PUT'', req_URL = UpdateDNSRecord_url ex_record,
              req_Header = [(''X-Auth-Email'', ''me@example.com''), (''X-Auth-Key'', ''secret''),
                            (''Content-Type'', ''application/json'')],
              req_Body = Some (Sprintf_DNSRecord (ex_record\<lparr>Content := ''2001:db8::1''\<rparr>))\<rparr>] \<and>
   filter mutating (snd (main (ex_lib [ex_record]) (ex_world [A ex_current])
       (ex_flags ''2001:db8::1'' True) [])) =
     [HTTPDo \<lparr>req_Method = ''PUT'', req_URL = UpdateDNSRecord_url ex_record,
              req_Header = [(''X-Auth-Email'', ''me@example.com''), (''X-Auth-Key'', ''secret''),
                            (''Content-Type'', ''application/json'')],
              req_Body = Some (Sprintf_DNSRecord (ex_record\<lparr>Content := ''2001:db8::1''\<rparr>))\<rparr>]"
proof -
  have e: "\<not> list_ex mutating []"
    by simp
  have d: "Content ex_record \<noteq> IP_String (ex_lib [ex_record]) ex_v6"
    by (simp add: ex_IP_String_v6 ex_record_fields)
  note inst = getArgs_accepts_any_IP
    [of "ex_flags ''2001:db8::1'' False" "ex_lib [ex_record]" ex_v6 "ex_world []" "[]"]
  note accept = inst [THEN conjunct1, rule_format]
  note run = inst [THEN conjunct2, THEN conjunct1, rule_format]
  note written = inst [THEN conjunct2, THEN conjunct2, THEN conjunct1, rule_format]
  note run_changed = getArgs_accepts_any_IP
    [of "ex_flags ''2001:db8::1'' True" "ex_lib [ex_record]" ex_v6 "ex_world [A ex_current]" "[]",
     THEN conjunct2, THEN conjunct1, rule_format]
  note reject = getArgs_accepts_any_IP
    [of "ex_flags ''not an address'' False" "ex_lib [ex_record]" ex_v6 "ex_world []" "[]",
     THEN conjunct2, THEN conjunct2, THEN conjunct2, rule_format]
  have "\<exists>args. getArgs (ex_lib [ex_record]) (ex_flags ''2001:db8::1'' False) = Inr args \<and>
           Args_IP args = Some ex_v6 \<and>
           (\<forall>key. getKeyFromFile (ex_world []) (Args_KeyFile args) [] = Inr key \<longrightarrow>
              main (ex_lib [ex_record]) (ex_world []) (ex_flags ''2001:db8::1'' False) [] =
              main_update (ex_lib [ex_record]) (ex_world []) args key ex_v6 [])"
    by (rule accept) (simp add: ex_flags_def ex_lib_def)
  then have 1: "\<exists>args. getArgs (ex_lib [ex_record]) (ex_flags ''2001:db8::1'' False) = Inr args \<and>
           Args_IP args = Some ex_v6"
    by blast
  have 2: "Type ex_record = ''A'' \<and>
    filter mutating (snd (updateIP (ex_lib [ex_record]) (ex_world []) ''secret''
       ''me@example.com'' ''example.com'' ''host.example.com'' False ex_v6 [])) =
     filter mutating [] @
     [HTTPDo \<lparr>req_Method = ''PUT'', req_URL = UpdateDNSRecord_url ex_record,
              req_Header = [(''X-Auth-Email'', ''me@example.com''), (''X-Auth-Key'', ''secret''),
                            (''Content-Type'', ''application/json'')],
              req_Body = Some (Sprintf_DNSRecord
                 (ex_record\<lparr>Content := IP_String (ex_lib [ex_record]) ex_v6\<rparr>))\<rparr>]"
    by (rule written
          [OF conjI [OF ex_ListZones conjI [OF ex_match_before [OF e]
                conjI [OF d conjI [OF ex_Marshal ex_NewRequest]]]]])
  have 3: "main (ex_lib [ex_record]) (ex_world []) (ex_flags ''not an address'' False) [] =
     (1, [PrintDefaults])"
    using reject by (simp add: ex_flags_def ex_lib_def)
  have 4: "Type ex_record = ''A'' \<and>
    filter mutating (snd (main (ex_lib [ex_record]) (ex_world [])
       (ex_flags ''2001:db8::1'' False) [])) =
     filter mutating [] @
     [HTTPDo \<lparr>req_Method = ''PUT'', req_URL = UpdateDNSRecord_url ex_record,
              req_Header = [(''X-Auth-Email'', ''me@example.com''), (''X-Auth-Key'', ''secret''),
                            (''Content-Type'', ''application/json'')],
              req_Body = Some (Sprintf_DNSRecord
                 (ex_record\<lparr>Content := IP_String (ex_lib [ex_record]) ex_v6\<rparr>))\<rparr>]"
  proof (rule run [where u = "[]" and key = "''secret''", unfolded ex_flags_fields])
    show "''me@example.com'' \<noteq> [] \<and> ''example.com'' \<noteq> [] \<and> ''host.example.com'' \<noteq> [] \<and>
      ''/etc/cf.key'' \<noteq> [] \<and> ''2001:db8::1'' \<noteq> [] \<and>
      ParseIP (ex_lib [ex_record]) ''2001:db8::1'' = Some ex_v6 \<and>
      getKeyFromFile (ex_world []) ''/etc/cf.key'' [] = Inr ''secret'' \<and>
      (\<not> False \<and> [] = [] \<or>
       False \<and>
       (\<exists>cur d1. dnsLookupHost (ex_lib [ex_record]) (ex_world []) ''host.example.com'' [] =
                   (Inr [cur], d1) \<and>
                 \<not> IP_Equal cur ex_v6 \<and>
                 [] = (if False
                      then d1 @ [Log (''Host'' @ [CHR 0x27] @ ''s current IP is '' @
                                      IP_String (ex_lib [ex_record]) cur)]
                      else d1))) \<and>
      ListZones (ex_lib [ex_record]) (ex_world []) (NewClient ''secret'' ''me@example.com'')
        ''example.com'' [] (- 1) (- 1) [] [] [] [] =
        (Inr [ex_zone],
         [] @ [HTTPDo \<lparr>req_Method = ''GET'',
                 req_URL = ListZones_url ''example.com'' [] (- 1) (- 1) [] [] [],
                 req_Header =
                   [(''X-Auth-Email'', Email (NewClient ''secret'' ''me@example.com'')),
                    (''X-Auth-Key'', Key (NewClient ''secret'' ''me@example.com'')),
                    (''Content-Type'', ''application/json'')],
                 req_Body = None\<rparr>]) \<and>
      updateIP_zones (ex_lib [ex_record]) (ex_world []) (NewClient ''secret'' ''me@example.com'')
        False ''host.example.com'' ''A'' [ex_zone] []
        ([] @ [HTTPDo \<lparr>req_Method = ''GET'',
                 req_URL = ListZones_url ''example.com'' [] (- 1) (- 1) [] [] [],
                 req_Header =
                   [(''X-Auth-Email'', Email (NewClient ''secret'' ''me@example.com'')),
                    (''X-Auth-Key'', Key (NewClient ''secret'' ''me@example.com'')),
                    (''Content-Type'', ''application/json'')],
                 req_Body = None\<rparr>]) =
        (Inr [ex_record],
         snd (updateIP_zones (ex_lib [ex_record]) (ex_world [])
           (NewClient ''secret'' ''me@example.com'') False ''host.example.com'' ''A''
           [ex_zone] []
           ([] @ [HTTPDo \<lparr>req_Method = ''GET'',
                 req_URL = ListZones_url ''example.com'' [] (- 1) (- 1) [] [] [],
                 req_Header =
                   [(''X-Auth-Email'', Email (NewClient ''secret'' ''me@example.com'')),
                    (''X-Auth-Key'', Key (NewClient ''secret'' ''me@example.com'')),
                    (''Content-Type'', ''application/json'')],
                 req_Body = None\<rparr>]))) \<and>
      Content ex_record \<noteq> IP_String (ex_lib [ex_record]) ex_v6 \<and>
      Marshal_DNSRecord (ex_lib [ex_record])
        (ex_record\<lparr>Content := IP_String (ex_lib [ex_record]) ex_v6\<rparr>) =
        Inr (Sprintf_DNSRecord (ex_record\<lparr>Content := IP_String (ex_lib [ex_record]) ex_v6\<rparr>)) \<and>
      http_NewRequest (ex_lib [ex_record]) ''PUT'' (UpdateDNSRecord_url ex_record) = None"
      by (intro conjI disjI1 ex_ListZones ex_match_before [OF e] d ex_Marshal ex_NewRequest
          ex_ParseIP_v6 ex_getKeyFromFile) simp_all
  qed
  define u where "u = [DNSExchange \<lparr>q_Id = 7, q_RecursionDesired = True,
      q_Name = ''host.example.com.'', q_Qtype = TypeA, q_Qclass = ClassINET\<rparr> ''192.0.2.53:53'']"
  have quiet: "\<not> list_ex mutating u"
    by (simp add: u_def)
  have looked: "\<not> True \<and> u = [] \<or>
       True \<and>
       (\<exists>cur d1. dnsLookupHost (ex_lib [ex_record]) (ex_world [A ex_current])
                    ''host.example.com'' [] = (Inr [cur], d1) \<and>
                 \<not> IP_Equal cur ex_v6 \<and>
                 u = (if False
                      then d1 @ [Log (''Host'' @ [CHR 0x27] @ ''s current IP is '' @
                                      IP_String (ex_lib [ex_record]) cur)]
                      else d1))"
    by (simp add: ex_dnsLookupHost ex_not_Equal_v6 u_def)
  have 5: "Type ex_record = ''A'' \<and>
    filter mutating (snd (main (ex_lib [ex_record]) (ex_world [A ex_current])
       (ex_flags ''2001:db8::1'' True) [])) =
     filter mutating [] @
     [HTTPDo \<lparr>req_Method = ''PUT'', req_URL = UpdateDNSRecord_url ex_record,
              req_Header = [(''X-Auth-Email'', ''me@example.com''), (''X-Auth-Key'', ''secret''),
                            (''Content-Type'', ''application/json'')],
              req_Body = Some (Sprintf_DNSRecord
                 (ex_record\<lparr>Content := IP_String (ex_lib [ex_record]) ex_v6\<rparr>))\<rparr>]"
  proof (rule run_changed [where u = u and key = "''secret''", unfolded ex_flags_fields])
    show "''me@example.com'' \<noteq> [] \<and> ''example.com'' \<noteq> [] \<and> ''host.example.com'' \<noteq> [] \<and>
      ''/etc/cf.key'' \<noteq> [] \<and> ''2001:db8::1'' \<noteq> [] \<and>
      ParseIP (ex_lib [ex_record]) ''2001:db8::1'' = Some ex_v6 \<and>
      getKeyFromFile (ex_world [A ex_current]) ''/etc/cf.key'' [] = Inr ''secret'' \<and>
      (\<not> True \<and> u = [] \<or>
       True \<and>
       (\<exists>cur d1. dnsLookupHost (ex_lib [ex_record]) (ex_world [A ex_current])
                    ''host.example.com'' [] = (Inr [cur], d1) \<and>
                 \<not> IP_Equal cur ex_v6 \<and>
                 u = (if False
                      then d1 @ [Log (''Host'' @ [CHR 0x27] @ ''s current IP is '' @
                                      IP_String (ex_lib [ex_record]) cur)]
                      else d1))) \<and>
      ListZones (ex_lib [ex_record]) (ex_world [A ex_current])
        (NewClient ''secret'' ''me@example.com'') ''example.com'' [] (- 1) (- 1) [] [] [] u =
        (Inr [ex_zone],
         u @ [HTTPDo \<lparr>req_Method = ''GET'',
                req_URL = ListZones_url ''example.com'' [] (- 1) (- 1) [] [] [],
                req_Header =
                  [(''X-Auth-Email'', Email (NewClient ''secret'' ''me@example.com'')),
                   (''X-Auth-Key'', Key (NewClient ''secret'' ''me@example.com'')),
                   (''Content-Type'', ''application/json'')],
                req_Body = None\<rparr>]) \<and>
      updateIP_zones (ex_lib [ex_record]) (ex_world [A ex_current])
        (NewClient ''secret'' ''me@example.com'') False ''host.example.com'' ''A'' [ex_zone] []
        (u @ [HTTPDo \<lparr>req_Method = ''GET'',
                req_URL = ListZones_url ''example.com'' [] (- 1) (- 1) [] [] [],
                req_Header =
                  [(''X-Auth-Email'', Email (NewClient ''secret'' ''me@example.com'')),
                   (''X-Auth-Key'', Key (NewClient ''secret'' ''me@example.com'')),
                   (''Content-Type'', ''application/json'')],
                req_Body = None\<rparr>]) =
        (Inr [ex_record],
         snd (updateIP_zones (ex_lib [ex_record]) (ex_world [A ex_current])
           (NewClient ''secret'' ''me@example.com'') False ''host.example.com'' ''A''
           [ex_zone] []
           (u @ [HTTPDo \<lparr>req_Method = ''GET'',
                req_URL = ListZones_url ''example.com'' [] (- 1) (- 1) [] [] [],
                req_Header =
                  [(''X-Auth-Email'', Email (NewClient ''secret'' ''me@example.com'')),
                   (''X-Auth-Key'', Key (NewClient ''secret'' ''me@example.com'')),
                   (''Content-Type'', ''application/json'')],
                req_Body = None\<rparr>]))) \<and>
      Content ex_record \<noteq> IP_String (ex_lib [ex_record]) ex_v6 \<and>
      Marshal_DNSRecord (ex_lib [ex_record])
        (ex_record\<lparr>Content := IP_String (ex_lib [ex_record]) ex_v6\<rparr>) =
        Inr (Sprintf_DNSRecord (ex_record\<lparr>Content := IP_String (ex_lib [ex_record]) ex_v6\<rparr>)) \<and>
      http_NewRequest (ex_lib [ex_record]) ''PUT'' (UpdateDNSRecord_url ex_record) = None"
      by (intro conjI looked ex_ListZones ex_match_before [OF quiet] d ex_Marshal ex_NewRequest
          ex_ParseIP_v6 ex_getKeyFromFile) simp_all
  qed
  show ?thesis
    using 1 2 3 4 5 by (simp add: ex_IP_String_v6)
qed

end
